theory Spec2Isabelle
  imports Complex_Main "HOL-Library.Log_Nat"
begin

section \<open>Data model\<close>

text \<open>
  The analyzer class \<open>SeoAnalyzer\<close> works on the interface \<open>WebsiteData\<close> of
  \<open>shared/schema.ts\<close>. JavaScript strings are modelled as \<open>string\<close>, one \<open>char\<close>
  per code unit (code units below 256), so that \<open>length\<close> is the \<open>.length\<close> of the
  source. The numeric fields \<open>level\<close>, \<open>loadTime\<close> and \<open>wordCount\<close> are integral
  \<open>number\<close>s and are modelled as \<open>int\<close>; every score of the analyzer is a sum of
  integer constants and is an \<open>int\<close> as well. Sums, differences and products of these
  integers stay far below \<open>2 ^ 53\<close> and are exact in the source; quotients are not, and
  are rounded as the source rounds them (see \<open>toDouble\<close>).
\<close>

record heading =
  level :: int
  htext :: string

record image =
  src :: string
  alt :: string
  hasAlt :: bool

record link =
  href :: string
  ltext :: string
  isInternal :: bool

record WebsiteData =
  title :: string
  metaDescription :: string
  headings :: "heading list"
  images :: "image list"
  links :: "link list"
  content :: string
  hasSchema :: bool
  schemaTypes :: "string list"
  loadTime :: int
  wordCount :: int

datatype result_type = Success | Warning | Error

text \<open>A metric value is \<open>string | number\<close> in the source.\<close>

datatype metric = MNum int | MStr string

text \<open>
  \<open>TraditionalSeoResult\<close> and \<open>GeoResult\<close>: \<open>details\<close> and \<open>metrics\<close> are optional
  properties, absent is \<open>None\<close>.
\<close>

record seo_result =
  rtype :: result_type
  rtitle :: string
  rdescription :: string
  details :: "string option"
  metrics :: "(string \<times> metric) list option"

section \<open>Text primitives of the runtime\<close>

text \<open>Template literals print an integral number in decimal.\<close>

fun showNat :: "nat \<Rightarrow> string" where
  "showNat n =
     (if n < 10 then [''0123456789'' ! n]
      else showNat (n div 10) @ [''0123456789'' ! (n mod 10)])"

declare showNat.simps [simp del]

definition showInt :: "int \<Rightarrow> string" where
  "showInt i = (if i < 0 then CHR ''-'' # showNat (nat (- i)) else showNat (nat i))"

text \<open>
  \<open>toLowerCase\<close> on code units below 256: the ASCII capitals and the Latin-1 capitals
  (\<open>0xC0\<close> to \<open>0xDE\<close> without the multiplication sign \<open>0xD7\<close>) move up by 32.
\<close>

definition lowerChar :: "char \<Rightarrow> char" where
  "lowerChar c =
     (let n = (of_char c :: nat)
      in if (65 \<le> n \<and> n \<le> 90) \<or> (192 \<le> n \<and> n \<le> 222 \<and> n \<noteq> 215)
         then char_of (n + 32) else c)"

definition toLowerCase :: "string \<Rightarrow> string" where
  "toLowerCase s = map lowerChar s"

text \<open>\<open>s.startsWith(p)\<close> and \<open>s.includes(p)\<close>.\<close>

fun startsWith :: "string \<Rightarrow> string \<Rightarrow> bool" where
  "startsWith s [] = True"
| "startsWith [] (p # ps) = False"
| "startsWith (c # cs) (p # ps) = (c = p \<and> startsWith cs ps)"

fun includesStr :: "string \<Rightarrow> string \<Rightarrow> bool" where
  "includesStr [] p = (p = [])"
| "includesStr (c # cs) p = (startsWith (c # cs) p \<or> includesStr cs p)"

text \<open>
  White space of \<open>trim\<close> and of the class \<open>\s\<close>, among code units below 256: TAB, LF,
  VT, FF, CR, space and the no-break space.
\<close>

definition isSpace :: "char \<Rightarrow> bool" where
  "isSpace c = ((of_char c :: nat) \<in> {9, 10, 11, 12, 13, 32, 160})"

definition trim :: "string \<Rightarrow> string" where
  "trim s = rev (dropWhile isSpace (rev (dropWhile isSpace s)))"

text \<open>
  \<open>s.split(sep)\<close> for a non-empty separator string (the source splits on a space and on
  two line feeds): the pieces between the leftmost non-overlapping occurrences. The
  accumulator holds the current piece reversed.
\<close>

function splitAcc :: "string \<Rightarrow> string \<Rightarrow> string \<Rightarrow> string list" where
  "splitAcc sep acc [] = [rev acc]"
| "splitAcc sep acc (c # cs) =
     (if sep \<noteq> [] \<and> startsWith (c # cs) sep
      then rev acc # splitAcc sep [] (drop (length sep) (c # cs))
      else splitAcc sep (c # acc) cs)"
  by pat_completeness auto
termination
  by (relation "measure (\<lambda>(sep, acc, s). length s)") auto

definition splitStr :: "string \<Rightarrow> string \<Rightarrow> string list" where
  "splitStr sep s = splitAcc sep [] s"

text \<open>
  \<open>s.split(/[.!?]+/)\<close>: the separator is a maximal run of sentence terminators.
\<close>

definition isTerminator :: "char \<Rightarrow> bool" where
  "isTerminator c = (c = CHR ''.'' \<or> c = CHR ''!'' \<or> c = CHR ''?'')"

function splitSentencesAcc :: "string \<Rightarrow> string \<Rightarrow> string list" where
  "splitSentencesAcc acc [] = [rev acc]"
| "splitSentencesAcc acc (c # cs) =
     (if isTerminator c then rev acc # splitSentencesAcc [] (dropWhile isTerminator cs)
      else splitSentencesAcc (c # acc) cs)"
  by pat_completeness auto
termination
  by (relation "measure (\<lambda>(acc, s). length s)")
     (auto simp: less_Suc_eq_le length_dropWhile_le)

definition splitSentences :: "string \<Rightarrow> string list" where
  "splitSentences s = splitSentencesAcc [] s"

text \<open>
  \<open>s.match(/\b\w+\b/g) || []\<close>: between two word boundaries the greedy \<open>\w+\<close> takes a
  maximal run of word characters (letters, digits, underscore), so the matches are the
  maximal runs.
\<close>

definition isWordChar :: "char \<Rightarrow> bool" where
  "isWordChar c =
     (let n = (of_char c :: nat)
      in (48 \<le> n \<and> n \<le> 57) \<or> (65 \<le> n \<and> n \<le> 90) \<or> n = 95 \<or> (97 \<le> n \<and> n \<le> 122))"

function wordMatches :: "string \<Rightarrow> string list" where
  "wordMatches [] = []"
| "wordMatches (c # cs) =
     (if isWordChar c
      then (c # takeWhile isWordChar cs) # wordMatches (dropWhile isWordChar cs)
      else wordMatches cs)"
  by pat_completeness auto
termination
  by (relation "measure length") (auto simp: less_Suc_eq_le length_dropWhile_le)

text \<open>
  \<open>(s.match(new RegExp(lit, 'g')) || []).length\<close> for a literal without metacharacters
  (the source passes the digits of a year): the number of leftmost non-overlapping
  occurrences. The literal is never empty at the call sites.
\<close>

function countLiteral :: "string \<Rightarrow> string \<Rightarrow> nat" where
  "countLiteral lit [] = 0"
| "countLiteral lit (c # cs) =
     (if lit \<noteq> [] \<and> startsWith (c # cs) lit
      then Suc (countLiteral lit (drop (length lit) (c # cs)))
      else countLiteral lit cs)"
  by pat_completeness auto
termination
  by (relation "measure (\<lambda>(lit, s). length s)") auto

text \<open>
  Numbers of the source are IEEE 754 doubles. \<open>toDouble\<close> rounds an exact rational
  result to the nearest double, ties to the even significand: with \<open>e = exponentOf \<bar>x\<bar>\<close>
  the binary exponent of \<open>x\<close> (\<open>2 ^ e \<le> \<bar>x\<bar> < 2 ^ (e + 1)\<close>), the doubles around \<open>x\<close>
  are the multiples of \<open>2 ^ (e - 52)\<close>. Every quotient and every product of a
  non-integer in the source is wrapped in \<open>toDouble\<close>. The values that occur are in
  the normal range of doubles, so neither overflow nor gradual underflow is modelled.
\<close>

definition pow2 :: "int \<Rightarrow> rat" where
  "pow2 k = (if 0 \<le> k then 2 ^ nat k else 1 / 2 ^ nat (- k))"

definition roundHalfEven :: "rat \<Rightarrow> int" where
  "roundHalfEven x =
     (let f = \<lfloor>x\<rfloor>; r = x - of_int f
      in if r < 1 / 2 then f else if 1 / 2 < r then f + 1 else if even f then f else f + 1)"

definition exponentOf :: "rat \<Rightarrow> int" where
  "exponentOf x =
     (let k = bitlen (fst (quotient_of x)) - bitlen (snd (quotient_of x))
      in if pow2 k \<le> x then k else k - 1)"

definition toDouble :: "rat \<Rightarrow> rat" where
  "toDouble x =
     (if x = 0 then 0
      else (let ulp = pow2 (exponentOf \<bar>x\<bar> - 52)
            in of_int (roundHalfEven (x / ulp)) * ulp))"

text \<open>\<open>Math.round\<close> of a double: the nearest integer, a half rounding up.\<close>

definition jsRound :: "rat \<Rightarrow> int" where
  "jsRound x = \<lfloor>x + 1 / 2\<rfloor>"

text \<open>
  The other regular expressions of the source are literals handed to the engine of the
  runtime. Each literal has a name here, and the engine is a parameter \<open>rx\<close> of the
  functions that use it: \<open>rx p s\<close> is the number of matches of the global match of
  \<open>p\<close> in \<open>s\<close>, zero when \<open>match\<close> returns \<open>null\<close>.
\<close>

datatype regex =
    ScanBullet          \<comment> \<open>bullet, star or dash, then white space\<close>
  | ScanNumbered        \<comment> \<open>digits, a dot, white space\<close>
  | FmtBold             \<comment> \<open>two stars, lazily anything, two stars\<close>
  | FmtItalic           \<comment> \<open>a star, lazily anything, a star\<close>
  | FmtColonEnd         \<comment> \<open>a colon and white space at the end of a line\<close>
  | FmtListItem         \<comment> \<open>at a line start: white space, dash or bullet, white space\<close>
  | BulletStar          \<comment> \<open>bullet or star, then white space\<close>
  | BulletLine          \<comment> \<open>at a line start: white space, dash, star or plus, white space\<close>
  | BulletSquare        \<comment> \<open>small black square, then white space\<close>
  | BulletRing          \<comment> \<open>white bullet, then white space\<close>
  | NumberedLine        \<comment> \<open>at a line start: white space, digits, a dot, white space\<close>
  | StatPercent         \<comment> \<open>digits and a percent sign\<close>
  | StatCurrency        \<comment> \<open>a dollar sign, digits, groups of a comma and three digits\<close>
  | StatThousands       \<comment> \<open>digits, a comma, three digits\<close>
  | StatDecimal         \<comment> \<open>digits, a dot, digits\<close>
  | StatScale           \<comment> \<open>digits, optional space, million, billion or thousand\<close>
  | StatPeriod          \<comment> \<open>digits, optional space, hour(s), day(s), week(s), month(s), year(s)\<close>
  | StatQuantity        \<comment> \<open>digits, optional space, people, users, customers or companies\<close>
  | CmpVs               \<comment> \<open>vs, an optional dot, white space\<close>
  | CmpVersus
  | CmpComparedTo
  | CmpInContrast
  | CmpOtherHand
  | CodeInline          \<comment> \<open>a backtick, non-backticks, a backtick\<close>
  | CodeBlock           \<comment> \<open>three backticks, lazily anything, three backticks\<close>
  | CodeTag             \<comment> \<open>an opening angle, anything but a closing angle, a closing angle\<close>
  | ProperNounPair      \<comment> \<open>two capitalised words separated by one space\<close>

text \<open>\<open>Array.prototype.join\<close> with a separator.\<close>

fun join :: "string \<Rightarrow> string list \<Rightarrow> string" where
  "join sep [] = []"
| "join sep [x] = x"
| "join sep (x # y # ys) = x @ sep @ join sep (y # ys)"

section \<open>Traditional SEO analysis\<close>

text \<open>
  \<open>analyzeTraditionalSeo\<close> threads the pair \<open>(results, score)\<close> through its six
  checks; each check is one state transformer, in the order of the source. A string is
  falsy exactly when it is empty.
\<close>

type_synonym seo_state = "seo_result list \<times> int"

definition push :: "seo_result \<Rightarrow> int \<Rightarrow> seo_state \<Rightarrow> seo_state" where
  "push r pts st = (fst st @ [r], snd st + pts)"

definition titleCheck :: "WebsiteData \<Rightarrow> seo_state \<Rightarrow> seo_state" where
  "titleCheck d st =
     (if title d = [] then
        push \<lparr>rtype = Error, rtitle = ''Missing title tag'',
              rdescription = ''The page is missing a title tag, which is crucial for SEO.'',
              details = None, metrics = None\<rparr> 0 st
      else if length (title d) < 30 then
        push \<lparr>rtype = Warning, rtitle = ''Title tag too short'',
              rdescription = ''Title tag should be between 30-60 characters for optimal SEO.'',
              details = Some (''Current: '' @ [CHR 0x22] @ title d @ [CHR 0x22]), metrics = None\<rparr> 10 st
      else if length (title d) > 60 then
        push \<lparr>rtype = Warning, rtitle = ''Title tag too long'',
              rdescription = ''Title tag may be truncated in search results.'',
              details = Some (''Current length: '' @ showNat (length (title d)) @ '' characters''),
              metrics = None\<rparr> 10 st
      else
        push \<lparr>rtype = Success, rtitle = ''Title tag length optimal'',
              rdescription = ''Title tag length is within the recommended range.'',
              details = Some (''Length: '' @ showNat (length (title d)) @ '' characters''),
              metrics = None\<rparr> 20 st)"

definition metaCheck :: "WebsiteData \<Rightarrow> seo_state \<Rightarrow> seo_state" where
  "metaCheck d st =
     (if metaDescription d = [] then
        push \<lparr>rtype = Error, rtitle = ''Missing meta description'',
              rdescription = ''Meta description is missing, which affects click-through rates.'',
              details = None, metrics = None\<rparr> 0 st
      else if length (metaDescription d) < 120 then
        push \<lparr>rtype = Warning, rtitle = ''Meta description too short'',
              rdescription = ''Meta description should be 120-160 characters for best results.'',
              details = Some (''Current length: '' @ showNat (length (metaDescription d))
                                @ '' characters''),
              metrics = None\<rparr> 10 st
      else if length (metaDescription d) > 160 then
        push \<lparr>rtype = Warning, rtitle = ''Meta description too long'',
              rdescription = ''Meta description may be truncated in search results.'',
              details = Some (''Current length: '' @ showNat (length (metaDescription d))
                                @ '' characters''),
              metrics = None\<rparr> 10 st
      else
        push \<lparr>rtype = Success, rtitle = ''Meta description length optimal'',
              rdescription = ''Meta description length is within the recommended range.'',
              details = Some (''Length: '' @ showNat (length (metaDescription d))
                                @ '' characters''),
              metrics = None\<rparr> 20 st)"

definition h1Count :: "WebsiteData \<Rightarrow> nat" where
  "h1Count d = length (filter (\<lambda>h. level h = 1) (headings d))"

definition h1Check :: "WebsiteData \<Rightarrow> seo_state \<Rightarrow> seo_state" where
  "h1Check d st =
     (if h1Count d = 0 then
        push \<lparr>rtype = Error, rtitle = ''Missing H1 tag'',
              rdescription = ''Every page should have exactly one H1 tag.'',
              details = None, metrics = None\<rparr> 0 st
      else if h1Count d > 1 then
        push \<lparr>rtype = Warning, rtitle = ''Multiple H1 tags found'',
              rdescription =
                ''Use only one H1 per page and structure other headings hierarchically.'',
              details = None,
              metrics = Some [(''H1 tags'', MNum (int (h1Count d)))]\<rparr> 10 st
      else
        push \<lparr>rtype = Success, rtitle = ''Proper H1 structure'',
              rdescription = ''Page has exactly one H1 tag.'',
              details = None, metrics = None\<rparr> 15 st)"

definition imagesWithoutAlt :: "WebsiteData \<Rightarrow> nat" where
  "imagesWithoutAlt d = length (filter (\<lambda>img. \<not> hasAlt img) (images d))"

text \<open>
  The image check has no final \<open>else\<close>: with no image at all neither branch runs and
  the state is returned unchanged.
\<close>

definition imageCheck :: "WebsiteData \<Rightarrow> seo_state \<Rightarrow> seo_state" where
  "imageCheck d st =
     (if imagesWithoutAlt d > 0 then
        push \<lparr>rtype = Error, rtitle = ''Missing alt text on images'',
              rdescription = showNat (imagesWithoutAlt d)
                @ '' images found without alt attributes, affecting accessibility and SEO.'',
              details = None,
              metrics = Some [(''Total images'', MNum (int (length (images d)))),
                              (''Missing alt'', MNum (int (imagesWithoutAlt d)))]\<rparr> 0 st
      else if length (images d) > 0 then
        push \<lparr>rtype = Success, rtitle = ''All images have alt text'',
              rdescription = ''Great job! All images have descriptive alt attributes.'',
              details = None,
              metrics = Some [(''Total images'', MNum (int (length (images d))))]\<rparr> 15 st
      else st)"

definition schemaCheck :: "WebsiteData \<Rightarrow> seo_state \<Rightarrow> seo_state" where
  "schemaCheck d st =
     (if \<not> hasSchema d then
        push \<lparr>rtype = Warning, rtitle = ''No schema markup found'',
              rdescription =
                ''Consider adding structured data to help search engines understand your content.'',
              details = None, metrics = None\<rparr> 0 st
      else
        push \<lparr>rtype = Success, rtitle = ''Schema markup present'',
              rdescription = ''Structured data found on the page.'',
              details = Some (''Types: '' @ join '', '' (schemaTypes d)),
              metrics = None\<rparr> 15 st)"

definition loadTimeCheck :: "WebsiteData \<Rightarrow> seo_state \<Rightarrow> seo_state" where
  "loadTimeCheck d st =
     (if loadTime d > 3000 then
        push \<lparr>rtype = Warning, rtitle = ''Slow page load time'',
              rdescription =
                ''Page took longer than 3 seconds to load, which may affect user experience.'',
              details = None,
              metrics = Some [(''Load time'', MStr (showInt (loadTime d) @ ''ms''))]\<rparr> 0 st
      else
        push \<lparr>rtype = Success, rtitle = ''Good page load time'',
              rdescription = ''Page loads within acceptable time limits.'',
              details = None,
              metrics = Some [(''Load time'', MStr (showInt (loadTime d) @ ''ms''))]\<rparr> 15 st)"

definition analyzeTraditionalSeo :: "WebsiteData \<Rightarrow> seo_result list \<times> int" where
  "analyzeTraditionalSeo d =
     (let st = loadTimeCheck d (schemaCheck d (imageCheck d (h1Check d
                 (metaCheck d (titleCheck d ([], 0))))))
      in (fst st, min (snd st) 100))"

text \<open>The record of the empty-page scenario.\<close>

definition emptyRecord :: WebsiteData where
  "emptyRecord =
     \<lparr>title = [], metaDescription = [], headings = [], images = [], links = [],
      content = [], hasSchema = False, schemaTypes = [], loadTime = 500, wordCount = 0\<rparr>"

section \<open>GEO analysis\<close>

text \<open>
  \<open>analyzeGeo\<close> has the same shape with five checks; a \<open>GeoResult\<close> never carries
  \<open>metrics\<close>. The proper-noun test is \<open>RegExp.prototype.test\<close> on a literal without
  the global flag: true when the engine finds a match.
\<close>

definition h2Check :: "WebsiteData \<Rightarrow> seo_state \<Rightarrow> seo_state" where
  "h2Check d st =
     (let hasH2Structure = list_ex (\<lambda>h. level h = 2) (headings d)
      in if hasH2Structure then
           push \<lparr>rtype = Success, rtitle = ''Content structured with H2 headings'',
                 rdescription =
                   ''Good use of heading structure that AI engines can easily parse and understand.'',
                 details = None, metrics = None\<rparr> 20 st
         else
           push \<lparr>rtype = Warning, rtitle = ''Poor heading structure for AI'',
                 rdescription =
                   ''Add H2 and H3 headings to improve AI readability and content parsing.'',
                 details = None, metrics = None\<rparr> 0 st)"

definition tldrCheck :: "WebsiteData \<Rightarrow> seo_state \<Rightarrow> seo_state" where
  "tldrCheck d st =
     (let hasTldr = (includesStr (toLowerCase (content d)) ''tl;dr'' \<or>
                     includesStr (toLowerCase (content d)) ''summary'' \<or>
                     includesStr (toLowerCase (content d)) ''key takeaways'')
      in if \<not> hasTldr then
           push \<lparr>rtype = Error, rtitle = ''No TL;DR summary found'',
                 rdescription = ''AI tools prefer concise summaries. Add a TL;DR section to improve AI-driven content discovery.'',
                 details = None, metrics = None\<rparr> 0 st
         else
           push \<lparr>rtype = Success, rtitle = ''Summary content present'',
                 rdescription =
                   ''Content includes summary sections that AI tools can easily extract.'',
                 details = None, metrics = None\<rparr> 25 st)"

definition qaCheck :: "WebsiteData \<Rightarrow> seo_state \<Rightarrow> seo_state" where
  "qaCheck d st =
     (let hasQAFormat = (includesStr (toLowerCase (content d)) ''what is'' \<or>
                         includesStr (toLowerCase (content d)) ''how to'' \<or>
                         includesStr (toLowerCase (content d)) ''why'' \<or>
                         list_ex (\<lambda>h. includesStr (toLowerCase (htext h)) ''?'') (headings d))
      in if \<not> hasQAFormat then
           push \<lparr>rtype = Warning, rtitle = ''Limited question-answer format'',
                 rdescription = ''Content doesn't directly answer user intent queries. Consider restructuring with Q&A sections.'',
                 details = None, metrics = None\<rparr> 0 st
         else
           push \<lparr>rtype = Success, rtitle = ''Question-answer format detected'',
                 rdescription = ''Content addresses user questions directly, improving AI platform visibility.'',
                 details = None, metrics = None\<rparr> 20 st)"

definition geoSchemaCheck :: "WebsiteData \<Rightarrow> seo_state \<Rightarrow> seo_state" where
  "geoSchemaCheck d st =
     (if \<not> hasSchema d then
        push \<lparr>rtype = Error, rtitle = ''Missing schema markup'',
              rdescription = ''No structured data found. Schema markup helps AI engines understand your content context.'',
              details = None, metrics = None\<rparr> 0 st
      else
        push \<lparr>rtype = Success, rtitle = ''Schema markup enhances AI understanding'',
              rdescription = ''Structured data helps AI platforms understand content relationships and context.'',
              details = None, metrics = None\<rparr> 20 st)"

definition entityCheck :: "(regex \<Rightarrow> string \<Rightarrow> nat) \<Rightarrow> WebsiteData \<Rightarrow> seo_state \<Rightarrow> seo_state" where
  "entityCheck rx d st =
     (let hasEntities = (includesStr (content d) ''2024'' \<or>
                         includesStr (content d) ''2023'' \<or>
                         0 < rx ProperNounPair (content d))
      in if hasEntities then
           push \<lparr>rtype = Success, rtitle = ''Good entity and semantic clarity'',
                 rdescription = ''Content includes specific entities, dates, and proper nouns that improve AI understanding.'',
                 details = None, metrics = None\<rparr> 15 st
         else
           push \<lparr>rtype = Warning, rtitle = ''Moderate entity and semantic clarity'',
                 rdescription = ''Consider adding more specific dates, locations, and definitions to improve AI understanding.'',
                 details = None, metrics = None\<rparr> 0 st)"

definition analyzeGeo :: "(regex \<Rightarrow> string \<Rightarrow> nat) \<Rightarrow> WebsiteData \<Rightarrow> seo_result list \<times> int" where
  "analyzeGeo rx d =
     (let st = entityCheck rx d (geoSchemaCheck d (qaCheck d (tldrCheck d (h2Check d ([], 0)))))
      in (fst st, min (snd st) 100))"

section \<open>Content suggestions\<close>

datatype rating = High | Medium | Low

record blogTitle =
  btitle :: string
  target :: string

record faq =
  question :: string
  answer :: string

record platformVisibility =
  chatgpt :: rating
  perplexity :: rating
  claude :: rating
  bard :: rating

record improvement =
  impAction :: string
  impDescription :: string
  impImpact :: rating
  impPriority :: int

record ContentSuggestions =
  missingKeywords :: "string list"
  blogTitles :: "blogTitle list"
  contentStructure :: "string list"
  faqs :: "faq list"
  aiVisibility :: platformVisibility
  aiImprovements :: "improvement list"

text \<open>
  \<open>generateAiImprovements\<close> pushes onto \<open>improvements\<close> under four independent
  conditions on the score and returns the first six entries.
\<close>

definition generateAiImprovements :: "WebsiteData \<Rightarrow> int \<Rightarrow> improvement list" where
  "generateAiImprovements d currentScore =
     (let improvements = [];
          improvements =
            (if currentScore < 50 then improvements @
               [\<lparr>impAction = ''Add TL;DR Summary Section'',
                 impDescription = ''Add a 2-3 sentence summary at the top of your page covering the main points for AI tools'',
                 impImpact = High, impPriority = 1\<rparr>,
                \<lparr>impAction = ''Create FAQ Schema Markup'',
                 impDescription = ''Add common questions and their answers in structured data format so AI can easily understand'',
                 impImpact = High, impPriority = 2\<rparr>]
             else improvements);
          improvements =
            (if currentScore < 75 then improvements @
               [\<lparr>impAction = ''Improve Content Structure with Clear Headings'',
                 impDescription = ''Use H2/H3 headings that directly answer questions (What is, How to, Why)'',
                 impImpact = High, impPriority = 3\<rparr>,
                \<lparr>impAction = ''Add '' @ [CHR 0x22] @ ''People Also Ask'' @ [CHR 0x22] @ '' Section'',
                 impDescription = ''Add related questions and their short answers that users commonly ask'',
                 impImpact = Medium, impPriority = 4\<rparr>,
                \<lparr>impAction = ''Include Specific Dates and Statistics'',
                 impDescription = ''Add current year, numbers, and specific data points that AI tools can reference'',
                 impImpact = Medium, impPriority = 5\<rparr>]
             else improvements);
          improvements =
            (if currentScore < 85 then improvements @
               [\<lparr>impAction = ''Optimize for Voice Search Queries'',
                 impDescription = ''Add natural language phrases that people ask voice assistants'',
                 impImpact = Medium, impPriority = 6\<rparr>,
                \<lparr>impAction = ''Add Comparison Tables'',
                 impDescription = ''Present options, features, and alternatives in table format'',
                 impImpact = Medium, impPriority = 7\<rparr>]
             else improvements);
          improvements =
            (if currentScore \<ge> 85 then improvements @
               [\<lparr>impAction = ''Link to Authoritative Sources'',
                 impDescription = ''Reference Wikipedia, government sites, and trusted sources for credibility'',
                 impImpact = Low, impPriority = 8\<rparr>,
                \<lparr>impAction = ''Add Step-by-Step Instructions'',
                 impDescription = ''Convert process-based content into numbered lists'',
                 impImpact = Low, impPriority = 9\<rparr>,
                \<lparr>impAction = ''Implement Article Schema'',
                 impDescription = ''Add structured data for publisher, author, and publication date'',
                 impImpact = Low, impPriority = 10\<rparr>]
             else improvements)
      in take 6 improvements)"

definition generateContentSuggestions :: "WebsiteData \<Rightarrow> int \<Rightarrow> ContentSuggestions" where
  "generateContentSuggestions d aiScore =
     (let missingKeywords' =
            [''SEO optimization'', ''website performance'', ''search engine ranking'',
             ''content marketing'', ''digital marketing''];
          blogTitles' =
            [\<lparr>btitle = ''How to Improve Your Page Speed for Better Rankings in 2024'',
              target = ''page speed optimization, Core Web Vitals''\<rparr>,
             \<lparr>btitle = ''The Complete Guide to AI-Friendly Content Creation'',
              target = ''AI optimization, content structure''\<rparr>,
             \<lparr>btitle = ''SEO vs GEO: What's the Difference and Why It Matters'',
              target = ''generative engine optimization, SEO comparison''\<rparr>,
             \<lparr>btitle = ''Schema Markup: The Secret to Better AI Visibility'',
              target = ''structured data, schema implementation''\<rparr>];
          contentStructure' =
            [''## What is SEO Optimization?'',
             ''### Definition and Core Principles'',
             ''### Why SEO Matters in 2024'',
             ''## Traditional SEO vs. AI Optimization'',
             ''### Search Engine Optimization Basics'',
             ''### Generative Engine Optimization (GEO)'',
             ''## Step-by-Step Implementation Guide'',
             ''### Technical SEO Checklist'',
             ''### Content Optimization Strategies'',
             ''## Measuring Success'',
             ''### Key Performance Indicators'',
             ''### Tools and Analytics''];
          faqs' =
            [\<lparr>question = ''What is a good page speed score?'',
              answer = ''A good page speed score is above 90 for mobile and desktop. Core Web Vitals should meet Google's thresholds: LCP under 2.5s, FID under 100ms, and CLS under 0.1.''\<rparr>,
             \<lparr>question = ''How can I optimize images without losing quality?'',
              answer = ''Use modern formats like WebP or AVIF, implement lazy loading, compress images to 80-85% quality, and serve responsive images using srcset attributes.''\<rparr>,
             \<lparr>question = ''What's the difference between SEO and GEO?'',
              answer = ''SEO optimizes for search engines like Google, while GEO (Generative Engine Optimization) optimizes for AI platforms like ChatGPT and Perplexity that generate direct answers.''\<rparr>,
             \<lparr>question = ''How important is schema markup for AI visibility?'',
              answer = ''Schema markup is crucial for AI platforms to understand your content context, entity relationships, and factual information, significantly improving visibility in AI-generated responses.''\<rparr>];
          aiVisibility' = \<lparr>chatgpt = Medium, perplexity = Low, claude = Medium, bard = Low\<rparr>;
          aiImprovements' = generateAiImprovements d aiScore
      in \<lparr>missingKeywords = missingKeywords', blogTitles = blogTitles',
          contentStructure = contentStructure', faqs = faqs',
          aiVisibility = aiVisibility', aiImprovements = aiImprovements'\<rparr>)"

section \<open>The twelve factor assessors\<close>

text \<open>
  Each assessor is the source's sequence of updates of the local \<open>score\<close>, written
  as a chain of \<open>let\<close> bindings that rebind \<open>score\<close>. A lower-cased copy of the
  content is bound as \<open>content'\<close>. Quotients, and the decimal constants they are
  compared with, are doubles.
\<close>

definition assessCrawlability :: "WebsiteData \<Rightarrow> int" where
  "assessCrawlability d =
     (let score = 70;
          content' = toLowerCase (content d);
          score = (if includesStr content' ''login'' \<or> includesStr content' ''sign in'' \<or>
                      includesStr content' ''register''
                   then score - 30 else score);
          score = (if includesStr content' ''subscription'' \<or> includesStr content' ''premium'' \<or>
                      includesStr content' ''paywall''
                   then score - 20 else score);
          score = (if includesStr content' ''free'' \<or> includesStr content' ''public'' \<or>
                      includesStr content' ''open access''
                   then score + 20 else score);
          score = (if title d \<noteq> [] \<and> \<not> includesStr (toLowerCase (title d)) ''404'' \<and>
                      \<not> includesStr (toLowerCase (title d)) ''error''
                   then score + 15 else score)
      in max 10 (min 100 score))"

definition assessHtmlStructure :: "WebsiteData \<Rightarrow> int" where
  "assessHtmlStructure d =
     (let score = 0;
          h1Count = length (filter (\<lambda>h. level h = 1) (headings d));
          score = (if h1Count = 1 then score + 25
                   else if h1Count = 0 then score + 0
                   else score + 10);
          hasH2 = list_ex (\<lambda>h. level h = 2) (headings d);
          hasH3 = list_ex (\<lambda>h. level h = 3) (headings d);
          score = (if hasH2 then score + 25 else score);
          score = (if hasH3 then score + 15 else score);
          score = (if title d \<noteq> [] \<and> length (title d) > 10 then score + 20 else score);
          score = (if metaDescription d \<noteq> [] \<and> length (metaDescription d) > 50
                   then score + 15 else score)
      in min 100 score)"

definition assessContentClarity :: "WebsiteData \<Rightarrow> int" where
  "assessContentClarity d =
     (let score = 10;
          content' = toLowerCase (content d);
          introPatterns = [''what is'', ''introduction'', ''overview'', ''in this article'',
                           ''this guide''];
          foundIntro = list_ex (\<lambda>pattern. includesStr content' pattern) introPatterns;
          score = (if foundIntro then score + 20 else score);
          qaPatterns = [''how to'', ''why'', ''when'', ''where'', ''which'', ''who''];
          foundQA = length (filter (\<lambda>pattern. includesStr content' pattern) qaPatterns);
          score = score + min (int foundQA * 8) 25;
          definitionPatterns = [''definition'', ''means'', ''refers to'', ''is defined as'',
                                ''can be defined''];
          foundDefinitions = list_ex (\<lambda>pattern. includesStr content' pattern) definitionPatterns;
          score = (if foundDefinitions then score + 15 else score);
          score = (if wordCount d > 500 \<and> wordCount d < 2000 then score + 25
                   else if wordCount d \<ge> 2000 \<and> wordCount d < 4000 then score + 20
                   else if wordCount d \<ge> 300 \<and> wordCount d \<le> 500 then score + 15
                   else if wordCount d < 300 then score + 5
                   else score);
          score = (if title d \<noteq> [] then
                     (let titleWords = filter (\<lambda>word. length word > 3)
                                         (splitStr '' '' (toLowerCase (title d)));
                          contentMentions =
                            length (filter (\<lambda>word. includesStr content' word) titleWords);
                          relevanceRatio =
                            toDouble (of_nat contentMentions / of_nat (max (length titleWords) 1))
                      in score + jsRound (toDouble (relevanceRatio * 15)))
                   else score)
      in min 100 score)"

text \<open>
  \<open>assessScanability\<close> also computes a list \<open>lines\<close> that it never reads; it is left
  out. Both paragraph filters split on two line feeds.
\<close>

definition paragraphsOf :: "string \<Rightarrow> string list" where
  "paragraphsOf s = filter (\<lambda>p. length (trim p) > 50) (splitStr [CHR 0x0A, CHR 0x0A] s)"

definition assessScanability :: "(regex \<Rightarrow> string \<Rightarrow> nat) \<Rightarrow> WebsiteData \<Rightarrow> int" where
  "assessScanability rx d =
     (let score = 5;
          content' = content d;
          paragraphs = paragraphsOf content';
          score = (if length paragraphs > 0 then
                     (let avgParagraphLength =
                            toDouble (of_nat (foldl (\<lambda>sum p. sum + length p) 0 paragraphs)
                                        / of_nat (length paragraphs))
                      in if avgParagraphLength < 200 then score + 30
                         else if avgParagraphLength < 400 then score + 25
                         else if avgParagraphLength < 600 then score + 15
                         else score + 5)
                   else score);
          bulletPoints = rx ScanBullet content';
          numberedLists = rx ScanNumbered content';
          totalLists = bulletPoints + numberedLists;
          score = (if totalLists > 10 then score + 25
                   else if totalLists > 5 then score + 20
                   else if totalLists > 2 then score + 15
                   else if totalLists > 0 then score + 10
                   else score);
          headingCount = length (headings d);
          contentWords = wordCount d;
          headingRatio =
            toDouble (of_nat headingCount / max (toDouble (of_int contentWords / 200)) 1);
          score = (if headingRatio > toDouble (8 / 10) then score + 25
                   else if headingRatio > toDouble (5 / 10) then score + 20
                   else if headingRatio > toDouble (3 / 10) then score + 15
                   else if headingRatio > toDouble (1 / 10) then score + 10
                   else score);
          formattingPatterns = [FmtBold, FmtItalic, FmtColonEnd, FmtListItem];
          formattingScore =
            foldl (\<lambda>formattingScore pattern.
                     (let matches = rx pattern content'
                      in if matches > 0 then formattingScore + min (int matches * 2) 10
                         else formattingScore))
                  0 formattingPatterns;
          score = score + min formattingScore 20
      in min 100 score)"

definition assessSummarySections :: "WebsiteData \<Rightarrow> int" where
  "assessSummarySections d =
     (let content' = toLowerCase (content d);
          score = 0;
          score = (if includesStr content' ''tl;dr'' \<or> includesStr content' ''tldr''
                   then score + 40 else score);
          score = (if includesStr content' ''summary'' \<or> includesStr content' ''key points'' \<or>
                      includesStr content' ''takeaways''
                   then score + 30 else score);
          score = (if includesStr content' ''conclusion'' \<or> includesStr content' ''to summarize''
                   then score + 30 else score)
      in min 100 score)"

definition assessQaFormat :: "WebsiteData \<Rightarrow> int" where
  "assessQaFormat d =
     (let content' = toLowerCase (content d);
          score = 0;
          score = (if includesStr content' ''q:'' \<or> includesStr content' ''question:'' \<or>
                      includesStr content' ''faq''
                   then score + 40 else score);
          score = (if includesStr content' ''a:'' \<or> includesStr content' ''answer:''
                   then score + 30 else score);
          questionHeadings =
            filter (\<lambda>h. includesStr (toLowerCase (htext h)) ''?'' \<or>
                         startsWith (toLowerCase (htext h)) ''how '' \<or>
                         startsWith (toLowerCase (htext h)) ''what '' \<or>
                         startsWith (toLowerCase (htext h)) ''why '')
                   (headings d);
          score = (if length questionHeadings > 0 then score + 30 else score)
      in min 100 score)"

definition assessSchemaMarkup :: "WebsiteData \<Rightarrow> int" where
  "assessSchemaMarkup d =
     (let score = 0;
          score = (if hasSchema d then
                     (let score = score + 50;
                          score = (if ''FAQPage'' \<in> set (schemaTypes d) then score + 20 else score);
                          score = (if ''Article'' \<in> set (schemaTypes d) then score + 15 else score);
                          score = (if ''HowTo'' \<in> set (schemaTypes d) then score + 15 else score)
                      in score)
                   else score)
      in min 100 score)"

definition assessTrustedEntities :: "WebsiteData \<Rightarrow> int" where
  "assessTrustedEntities d =
     (let score = 5;
          content' = toLowerCase (content d);
          authorityDomains = [''wikipedia'', ''.gov'', ''.edu'', ''.org'', ''reuters'', ''bbc'',
                              ''cnn'', ''nytimes'', ''wsj''];
          foundAuthority = length (filter (\<lambda>domain. includesStr content' domain) authorityDomains);
          score = score + min (int foundAuthority * 12) 35;
          researchTerms = [''research'', ''study'', ''university'', ''journal'', ''published'',
                           ''peer review'', ''academic''];
          foundResearch = length (filter (\<lambda>term. includesStr content' term) researchTerms);
          score = score + min (int foundResearch * 8) 25;
          industryTerms = [''according to'', ''expert'', ''specialist'', ''authority'',
                           ''leader in'', ''established''];
          foundIndustry = length (filter (\<lambda>term. includesStr content' term) industryTerms);
          score = score + min (int foundIndustry * 5) 20;
          externalLinks = filter (\<lambda>link. \<not> isInternal link) (links d);
          linkScore = min (int (length externalLinks) * 3) 20;
          score = score + linkScore;
          score = (if includesStr content' ''source:'' \<or> includesStr content' ''reference'' \<or>
                      includesStr content' ''citation''
                   then score + 15 else score);
          entityPatterns = [''inc.'', ''corp.'', ''ltd.'', ''company'', ''organization'',
                            ''institute''];
          foundEntities = length (filter (\<lambda>pattern. includesStr content' pattern) entityPatterns);
          score = score + min (int foundEntities * 4) 15
      in min 100 score)"

text \<open>
  The loops of \<open>assessDataFormats\<close> add up the match counts of a list of patterns.
\<close>

definition countAll :: "(regex \<Rightarrow> string \<Rightarrow> nat) \<Rightarrow> regex list \<Rightarrow> string \<Rightarrow> nat" where
  "countAll rx patterns s = foldl (\<lambda>count pattern. count + rx pattern s) 0 patterns"

definition assessDataFormats :: "(regex \<Rightarrow> string \<Rightarrow> nat) \<Rightarrow> WebsiteData \<Rightarrow> int" where
  "assessDataFormats rx d =
     (let score = 5;
          content' = content d;
          bulletPatterns = [BulletStar, BulletLine, BulletSquare, BulletRing];
          bulletCount = countAll rx bulletPatterns content';
          score = (if bulletCount > 10 then score + 25
                   else if bulletCount > 5 then score + 20
                   else if bulletCount > 2 then score + 15
                   else if bulletCount > 0 then score + 10
                   else score);
          numberedCount = rx NumberedLine content';
          score = (if numberedCount > 8 then score + 20
                   else if numberedCount > 4 then score + 15
                   else if numberedCount > 1 then score + 10
                   else if numberedCount > 0 then score + 5
                   else score);
          statPatterns = [StatPercent, StatCurrency, StatThousands, StatDecimal, StatScale,
                          StatPeriod, StatQuantity];
          statCount = countAll rx statPatterns content';
          score = (if statCount > 15 then score + 25
                   else if statCount > 8 then score + 20
                   else if statCount > 4 then score + 15
                   else if statCount > 1 then score + 10
                   else score);
          tableIndicators = [''table'', ''chart'', ''graph'', ''figure'', ''data shows'',
                             ''statistics''];
          tableScore = length (filter (\<lambda>indicator. includesStr (toLowerCase content') indicator)
                                 tableIndicators);
          score = score + min (int tableScore * 3) 15;
          comparisonFormats = [CmpVs, CmpVersus, CmpComparedTo, CmpInContrast, CmpOtherHand];
          comparisonCount = countAll rx comparisonFormats content';
          score = score + min (int comparisonCount * 4) 15;
          codePatterns = [CodeInline, CodeBlock, CodeTag];
          codeCount = countAll rx codePatterns content';
          score = score + min (int codeCount * 2) 10
      in min 100 score)"

text \<open>
  In \<open>assessReadability\<close> the complex-word ratio is \<open>0 / 0\<close> when the content has no
  word: that is \<open>NaN\<close>, every comparison with it is false, and the last branch adds 5.
\<close>

definition assessReadability :: "WebsiteData \<Rightarrow> int" where
  "assessReadability d =
     (let score = 30;
          sentences = filter (\<lambda>s. length (trim s) > 10) (splitSentences (content d));
          score = (if length sentences > 0 then
                     (let avgWordsPerSentence =
                            toDouble (of_int (wordCount d) / of_nat (length sentences))
                      in if avgWordsPerSentence < 15 then score + 30
                         else if avgWordsPerSentence < 20 then score + 20
                         else if avgWordsPerSentence < 25 then score + 10
                         else score + 5)
                   else score);
          words = wordMatches (content d);
          complexWords = filter (\<lambda>word. length word > 7) words;
          score = (if words = [] then score + 5
                   else
                     (let complexWordRatio =
                            toDouble (of_nat (length complexWords) / of_nat (length words))
                      in if complexWordRatio < toDouble (15 / 100) then score + 20
                         else if complexWordRatio < toDouble (25 / 100) then score + 15
                         else if complexWordRatio < toDouble (35 / 100) then score + 10
                         else score + 5));
          paragraphs = paragraphsOf (content d);
          score = (if length paragraphs > 0 then
                     (let avgParagraphWords =
                            toDouble (of_int (wordCount d) / of_nat (length paragraphs))
                      in if avgParagraphWords < 50 then score + 15
                         else if avgParagraphWords < 100 then score + 10
                         else score + 5)
                   else score);
          readabilityTerms = [''simply'', ''easy'', ''quick'', ''step by step'', ''in other words'',
                              ''for example''];
          foundTerms = filter (\<lambda>term. includesStr (toLowerCase (content d)) term) readabilityTerms;
          score = score + min (int (length foundTerms) * 5) 15
      in max 10 (min 100 score))"

text \<open>
  \<open>assessFreshness\<close> reads the clock: \<open>currentYear\<close> is \<open>new Date().getFullYear()\<close>,
  a parameter of the model.
\<close>

definition assessFreshness :: "int \<Rightarrow> WebsiteData \<Rightarrow> int" where
  "assessFreshness currentYear d =
     (let score = 10;
          content' = toLowerCase (content d);
          currentYearMatches = countLiteral (showInt currentYear) content';
          score = score + min (int currentYearMatches * 15) 30;
          lastYearMatches = countLiteral (showInt (currentYear - 1)) content';
          score = score + min (int lastYearMatches * 10) 20;
          freshnessTerms = [(''updated'', 15), (''revised'', 12), (''latest'', 10),
                            (''current'', 8), (''recent'', 8), (''new'', 6), (''today'', 12),
                            (''this year'', 10), (''recently'', 8)];
          freshnessScore =
            foldl (\<lambda>freshnessScore (term, weight).
                     if includesStr content' term then freshnessScore + weight
                     else freshnessScore)
                  (0 :: int) freshnessTerms;
          score = score + min freshnessScore 25;
          months = [''january'', ''february'', ''march'', ''april'', ''may'', ''june'', ''july'',
                    ''august'', ''september'', ''october'', ''november'', ''december''];
          monthMentions = length (filter (\<lambda>month. includesStr content' month) months);
          score = score + min (int monthMentions * 3) 15;
          versionPatterns = [''version'', ''v.'', ''update'', ''release''];
          versionMentions = length (filter (\<lambda>pattern. includesStr content' pattern) versionPatterns);
          score = score + min (int versionMentions * 5) 15;
          oldYears = [''2020'', ''2019'', ''2018'', ''2017''];
          oldYearMentions = length (filter (\<lambda>year. includesStr content' year) oldYears);
          score = score - min (int oldYearMentions * 5) 20
      in max 5 (min 100 score))"

definition assessCredibility :: "WebsiteData \<Rightarrow> int" where
  "assessCredibility d =
     (let score = 15;
          content' = toLowerCase (content d);
          authorPatterns = [''author:'', ''written by'', ''by:'', ''contributor:'', ''created by'',
                            ''published by''];
          foundAuthor = list_ex (\<lambda>pattern. includesStr content' pattern) authorPatterns;
          score = (if foundAuthor then score + 25 else score);
          contactPatterns = [''contact us'', ''about us'', ''our team'', ''meet the team'',
                             ''company info''];
          foundContact = length (filter (\<lambda>pattern. includesStr content' pattern) contactPatterns);
          score = score + min (int foundContact * 8) 20;
          credentialTerms = [''expert'', ''certified'', ''professional'', ''phd'', ''degree'',
                             ''years of experience'', ''specialist''];
          foundCredentials = length (filter (\<lambda>term. includesStr content' term) credentialTerms);
          score = score + min (int foundCredentials * 6) 18;
          trustSignals = [''award'', ''featured in'', ''recognized'', ''testimonial'', ''review'',
                          ''trusted by''];
          foundTrust = length (filter (\<lambda>signal. includesStr content' signal) trustSignals);
          score = score + min (int foundTrust * 5) 15;
          datePatterns = [''published'', ''updated'', ''last modified'', ''copyright'', ''2024'',
                          ''2025''];
          foundDate = list_ex (\<lambda>pattern. includesStr content' pattern) datePatterns;
          score = (if foundDate then score + 12 else score);
          score = (if includesStr content' ''source'' \<or> includesStr content' ''reference'' \<or>
                      includesStr content' ''study''
                   then score + 10 else score)
      in max 5 (min 100 score))"

section \<open>AI platform visibility\<close>

datatype status = Pass | WarningStatus | Fail

record FactorResult =
  factor :: string
  score :: int
  description :: string
  status :: status

record Recommendation =
  priority :: rating
  action :: string
  recDescription :: string
  impact :: string

record AiVisibilityAssessment =
  overallScore :: int
  summary :: string
  factors :: "FactorResult list"
  recommendations :: "Recommendation list"

text \<open>
  \<open>generateAiVisibilityRecommendations\<close>: two \<open>forEach\<close> loops over the factors, each
  with a \<open>switch\<close> on the factor name, then two tests of the overall score, then
  \<open>slice(0, 8)\<close>. The loops are folds over the list \<open>recs\<close> of recommendations built
  so far; the object literals that the source pushes are named constants.
\<close>

definition tldrTemplate :: Recommendation where
  "tldrTemplate =
     \<lparr>priority = High, action = ''Add TL;DR Summary Section'',
      recDescription = ''Add a 2-3 sentence summary at the top or bottom of your page that covers the main points'',
      impact = ''AI tools will be able to easily understand and summarize your content''\<rparr>"

definition faqTemplate :: Recommendation where
  "faqTemplate =
     \<lparr>priority = High, action = ''Create FAQ Section'',
      recDescription = ''Add common questions and their direct answers in a structured format'',
      impact = ''Better visibility in ChatGPT and Perplexity search results''\<rparr>"

definition structuredDataTemplate :: Recommendation where
  "structuredDataTemplate =
     \<lparr>priority = High, action = ''Implement Structured Data'',
      recDescription = ''Add FAQPage, Article, or HowTo schema markup to your content'',
      impact = ''AI platforms will better understand your content context and relationships''\<rparr>"

definition contentStructureTemplate :: Recommendation where
  "contentStructureTemplate =
     \<lparr>priority = High, action = ''Improve Content Structure'',
      recDescription = ''Add clear introductions, definitions, and explanatory content'',
      impact = ''AI systems will better understand and reference your content''\<rparr>"

definition headingTemplate :: Recommendation where
  "headingTemplate =
     \<lparr>priority = Medium, action = ''Improve Heading Structure'',
      recDescription = ''Use a single H1 tag and create proper H2/H3 hierarchy'',
      impact = ''AI systems will better understand your content's logical flow''\<rparr>"

definition paragraphTemplate :: Recommendation where
  "paragraphTemplate =
     \<lparr>priority = Medium, action = ''Break Content into Short Paragraphs'',
      recDescription = ''Divide long paragraphs into shorter ones and use bullet points'',
      impact = ''AI tools can more easily scan and extract information from your content''\<rparr>"

definition languageTemplate :: Recommendation where
  "languageTemplate =
     \<lparr>priority = Medium, action = ''Simplify Language'',
      recDescription = ''Use shorter sentences and simpler vocabulary for better comprehension'',
      impact = ''AI systems prefer content that's easy to understand and process''\<rparr>"

definition failStep :: "Recommendation list \<Rightarrow> FactorResult \<Rightarrow> Recommendation list" where
  "failStep recs f =
     (if status f = Fail then
        (if factor f = ''TL;DR & Summary'' then recs @ [tldrTemplate]
         else if factor f = ''Q&A Format'' then recs @ [faqTemplate]
         else if factor f = ''Schema Markup'' then recs @ [structuredDataTemplate]
         else if factor f = ''Content Clarity'' then recs @ [contentStructureTemplate]
         else recs)
      else recs)"

definition warningStep :: "Recommendation list \<Rightarrow> FactorResult \<Rightarrow> Recommendation list" where
  "warningStep recs f =
     (if status f = WarningStatus then
        (if factor f = ''HTML Structure'' then recs @ [headingTemplate]
         else if factor f = ''Content Scannability'' then recs @ [paragraphTemplate]
         else if factor f = ''Readability Level'' then recs @ [languageTemplate]
         else recs)
      else recs)"

definition freshnessTip :: Recommendation where
  "freshnessTip =
     \<lparr>priority = Medium, action = ''Add Current Year References'',
      recDescription = ''Include 2025 dates and recent data points to show content freshness'',
      impact = ''AI platforms prefer fresh and up-to-date content for their responses''\<rparr>"

definition statisticsTip :: Recommendation where
  "statisticsTip =
     \<lparr>priority = High, action = ''Add Statistics and Data'',
      recDescription = ''Include specific numbers, percentages, and data points in your content'',
      impact = ''AI systems can extract and reference concrete data points from your content''\<rparr>"

definition generateAiVisibilityRecommendations ::
    "FactorResult list \<Rightarrow> int \<Rightarrow> Recommendation list" where
  "generateAiVisibilityRecommendations fs overall =
     (let recs = [];
          recs = foldl failStep recs fs;
          recs = foldl warningStep recs fs;
          recs = (if overall < 70 then recs @ [freshnessTip]
                             else recs);
          recs = (if overall < 50 then recs @ [statisticsTip]
                             else recs)
      in take 8 recs)"

text \<open>
  \<open>analyzeAiPlatformVisibility\<close> threads \<open>(factors, totalScore)\<close>: every factor is
  pushed with the status computed from its score and its score is added to the total.
\<close>

type_synonym factor_state = "FactorResult list \<times> int"

definition factorEntry :: "string \<Rightarrow> int \<Rightarrow> string \<Rightarrow> FactorResult" where
  "factorEntry name s descr =
     \<lparr>factor = name, score = s, description = descr,
      status = (if s \<ge> 80 then Pass else if s \<ge> 50 then WarningStatus else Fail)\<rparr>"

definition pushFactor :: "string \<Rightarrow> int \<Rightarrow> string \<Rightarrow> factor_state \<Rightarrow> factor_state" where
  "pushFactor name s descr st = (fst st @ [factorEntry name s descr], snd st + s)"

definition analyzeAiPlatformVisibility ::
    "(regex \<Rightarrow> string \<Rightarrow> nat) \<Rightarrow> int \<Rightarrow> WebsiteData \<Rightarrow> AiVisibilityAssessment" where
  "analyzeAiPlatformVisibility rx currentYear d =
     (let st = ([], 0);
          maxScore = 1200;
          st = pushFactor ''Public Crawlability'' (assessCrawlability d)
                 ''Page accessibility for AI crawlers without login walls or blocking'' st;
          st = pushFactor ''HTML Structure'' (assessHtmlStructure d)
                 ''Clean semantic HTML with proper heading hierarchy'' st;
          st = pushFactor ''Content Clarity'' (assessContentClarity d)
                 ''Clear introduction, topic definition, and direct question answers'' st;
          st = pushFactor ''Content Scannability'' (assessScanability rx d)
                 ''Short paragraphs and easy-to-summarize content structure'' st;
          st = pushFactor ''TL;DR & Summary'' (assessSummarySections d)
                 ''Quick summary sections at top or bottom of content'' st;
          st = pushFactor ''Q&A Format'' (assessQaFormat d)
                 ''Structured question-answer blocks that AI can easily extract'' st;
          st = pushFactor ''Schema Markup'' (assessSchemaMarkup d)
                 ''FAQPage, HowTo, Article, and other relevant structured data'' st;
          st = pushFactor ''Trusted Entities'' (assessTrustedEntities d)
                 ''References to organizations, authority sources, and credible links'' st;
          st = pushFactor ''Data Extraction'' (assessDataFormats rx d)
                 ''Bullet lists, tables, statistics, and structured information'' st;
          st = pushFactor ''Readability Level'' (assessReadability d)
                 ''8th-grade reading level, minimal jargon and marketing fluff'' st;
          st = pushFactor ''Content Freshness'' (assessFreshness currentYear d)
                 ''Updated dates, current year references, and freshness indicators'' st;
          st = pushFactor ''Credibility Markers'' (assessCredibility d)
                 ''Author information, contact details, and about us content'' st;
          factors' = fst st;
          totalScore = snd st;
          overallScore' = jsRound (toDouble (toDouble (of_int totalScore / maxScore) * 100));
          failingFactors = length (filter (\<lambda>f. status f = Fail) factors');
          warningFactors = length (filter (\<lambda>f. status f = WarningStatus) factors');
          summary' =
            (if overallScore' \<ge> 80 then
               ''Excellent AI platform visibility with strong optimization across most factors''
             else if overallScore' \<ge> 60 then
               ''Good AI visibility with '' @ showNat (failingFactors + warningFactors)
                 @ '' areas needing improvement''
             else if overallScore' \<ge> 40 then
               ''Moderate AI visibility. '' @ showNat failingFactors @ '' critical issues and ''
                 @ showNat warningFactors @ '' warnings to address''
             else
               ''Poor AI platform visibility. Significant optimization needed across ''
                 @ showNat failingFactors @ '' critical areas'');
          recommendations' = generateAiVisibilityRecommendations factors' overallScore'
      in \<lparr>overallScore = overallScore', summary = summary', factors = factors',
          recommendations = recommendations'\<rparr>)"

text \<open>The sum of the twelve scores, the \<open>totalScore\<close> of the source.\<close>

definition totalOf :: "(regex \<Rightarrow> string \<Rightarrow> nat) \<Rightarrow> int \<Rightarrow> WebsiteData \<Rightarrow> int" where
  "totalOf rx currentYear d =
     assessCrawlability d + assessHtmlStructure d + assessContentClarity d +
     assessScanability rx d + assessSummarySections d + assessQaFormat d +
     assessSchemaMarkup d + assessTrustedEntities d + assessDataFormats rx d +
     assessReadability d + assessFreshness currentYear d + assessCredibility d"

text \<open>
  The percentage of a total as the source computes it, in doubles, compared with the
  percentage rounded in exact arithmetic: \<open>percentageCheck t\<close> says that the two agree,
  except at the four totals 174, 342, 678 and 690, where the source is one lower.
\<close>

definition percentageCheck :: "int \<Rightarrow> bool" where
  "percentageCheck t =
     (jsRound (toDouble (toDouble (of_int t / 1200) * 100)) =
        jsRound (of_int t / 1200 * 100) - (if t \<in> {174, 342, 678, 690} then 1 else 0))"

section \<open>Comparison of two sites\<close>

text \<open>
  \<open>compareWebsites\<close> reads \<open>seoScore\<close> and \<open>aiScore\<close> of the two stored reports and
  \<open>overallScore\<close> and \<open>factors\<close> of the two visibility assessments.
\<close>

record AuditReport =
  url :: string
  seoScore :: int
  aiScore :: int
  traditionalSeoResults :: "seo_result list"
  geoResults :: "seo_result list"
  contentSuggestions :: ContentSuggestions

datatype category = Seo | Ai | ContentCategory | Visibility

record KeyDifference =
  category :: category
  aspect :: string
  url1Value :: string
  url2Value :: string
  recommendation :: string

record Differences =
  seoScoreDiff :: int
  aiScoreDiff :: int
  aiVisibilityDiff :: int
  betterPerformer :: string
  keyDifferences :: "KeyDifference list"

text \<open>
  The value shown for a factor looked up by name with \<open>Array.prototype.find\<close>: the
  first factor of that name, or \<open>undefined\<close>, which prints as \<open>Not assessed\<close>.
\<close>

definition factorValue :: "FactorResult list \<Rightarrow> string \<Rightarrow> string" where
  "factorValue fs name =
     (case find (\<lambda>f. factor f = name) fs of
        Some f \<Rightarrow> showInt (score f) @ ''/100''
      | None \<Rightarrow> ''Not assessed'')"

text \<open>The six entries that \<open>compareWebsites\<close> can push, in the order of the source.\<close>

definition titleDifference :: "WebsiteData \<Rightarrow> WebsiteData \<Rightarrow> int \<Rightarrow> KeyDifference" where
  "titleDifference data1 data2 seoDiff =
     \<lparr>category = Seo, aspect = ''Title Tag Optimization'',
      url1Value = showNat (length (title data1)) @ '' characters'',
      url2Value = showNat (length (title data2)) @ '' characters'',
      recommendation =
        (if seoDiff > 0 then ''URL2 has better title length (50-60 chars ideal)''
         else ''URL1 has better title length optimization'')\<rparr>"

definition metaDifference :: "WebsiteData \<Rightarrow> WebsiteData \<Rightarrow> KeyDifference" where
  "metaDifference data1 data2 =
     \<lparr>category = Seo, aspect = ''Meta Description'',
      url1Value = (if metaDescription data1 \<noteq> []
                   then showNat (length (metaDescription data1)) @ '' chars''
                   else ''Missing''),
      url2Value = (if metaDescription data2 \<noteq> []
                   then showNat (length (metaDescription data2)) @ '' chars''
                   else ''Missing''),
      recommendation = ''Meta description should be 150-160 characters for best results''\<rparr>"

definition summaryDifference ::
    "AiVisibilityAssessment \<Rightarrow> AiVisibilityAssessment \<Rightarrow> KeyDifference" where
  "summaryDifference aiVisibility1 aiVisibility2 =
     \<lparr>category = Visibility, aspect = ''AI Platform Summary'',
      url1Value = factorValue (factors aiVisibility1) ''TL;DR & Summary'',
      url2Value = factorValue (factors aiVisibility2) ''TL;DR & Summary'',
      recommendation = ''Add TL;DR sections and clear summaries for better AI visibility''\<rparr>"

definition schemaFactorDifference ::
    "AiVisibilityAssessment \<Rightarrow> AiVisibilityAssessment \<Rightarrow> KeyDifference" where
  "schemaFactorDifference aiVisibility1 aiVisibility2 =
     \<lparr>category = Visibility, aspect = ''Structured Data Implementation'',
      url1Value = factorValue (factors aiVisibility1) ''Schema Markup'',
      url2Value = factorValue (factors aiVisibility2) ''Schema Markup'',
      recommendation = ''Implement FAQPage and Article schema markup for AI platforms''\<rparr>"

definition structureDifference :: "WebsiteData \<Rightarrow> WebsiteData \<Rightarrow> KeyDifference" where
  "structureDifference data1 data2 =
     (let hasH2_1 = list_ex (\<lambda>h. level h = 2) (headings data1);
          hasH2_2 = list_ex (\<lambda>h. level h = 2) (headings data2)
      in \<lparr>category = Ai, aspect = ''Content Structure'',
          url1Value = (if hasH2_1 then ''Has H2 structure'' else ''Poor heading structure''),
          url2Value = (if hasH2_2 then ''Has H2 structure'' else ''Poor heading structure''),
          recommendation = ''Use H2/H3 headings for better AI content parsing''\<rparr>)"

definition schemaTypesDifference :: "WebsiteData \<Rightarrow> WebsiteData \<Rightarrow> KeyDifference" where
  "schemaTypesDifference data1 data2 =
     \<lparr>category = Ai, aspect = ''Schema Markup'',
      url1Value = (if hasSchema data1 then showNat (length (schemaTypes data1)) @ '' types''
                   else ''None''),
      url2Value = (if hasSchema data2 then showNat (length (schemaTypes data2)) @ '' types''
                   else ''None''),
      recommendation = ''Implement FAQ and Article schema for AI platforms''\<rparr>"

definition compareWebsites ::
    "WebsiteData \<Rightarrow> AuditReport \<Rightarrow> WebsiteData \<Rightarrow> AuditReport \<Rightarrow>
     AiVisibilityAssessment \<Rightarrow> AiVisibilityAssessment \<Rightarrow> Differences" where
  "compareWebsites data1 report1 data2 report2 aiVisibility1 aiVisibility2 =
     (let seoScoreDiff' = seoScore report2 - seoScore report1;
          aiScoreDiff' = aiScore report2 - aiScore report1;
          aiVisibilityDiff' = overallScore aiVisibility2 - overallScore aiVisibility1;
          betterPerformer' =
            (if seoScoreDiff' + aiScoreDiff' + aiVisibilityDiff' > 0 then ''url2'' else ''url1'');
          keyDifferences' = [];
          keyDifferences' =
            (if \<bar>seoScoreDiff'\<bar> > 10
             then keyDifferences' @
                  [titleDifference data1 data2 seoScoreDiff', metaDifference data1 data2]
             else keyDifferences');
          keyDifferences' =
            (if \<bar>aiVisibilityDiff'\<bar> > 15
             then keyDifferences' @
                  [summaryDifference aiVisibility1 aiVisibility2,
                   schemaFactorDifference aiVisibility1 aiVisibility2]
             else keyDifferences');
          keyDifferences' =
            (if \<bar>aiScoreDiff'\<bar> > 10
             then keyDifferences' @
                  [structureDifference data1 data2, schemaTypesDifference data1 data2]
             else keyDifferences')
      in \<lparr>seoScoreDiff = seoScoreDiff', aiScoreDiff = aiScoreDiff',
          aiVisibilityDiff = aiVisibilityDiff', betterPerformer = betterPerformer',
          keyDifferences = keyDifferences'\<rparr>)"

section \<open>The recommendation list as the specification words it\<close>





section \<open>Example inputs\<close>

text \<open>
  The engine that never finds a match; every pattern of the source needs at least one
  character, and the example texts below contain no match of any of them.
\<close>

definition noMatch :: "regex \<Rightarrow> string \<Rightarrow> nat" where
  "noMatch p s = 0"

text \<open>A page with one image that has its alternative text.\<close>

definition imageRecord :: WebsiteData where
  "imageRecord = emptyRecord\<lparr>images := [\<lparr>src = ''logo.png'', alt = ''Logo'', hasAlt = True\<rparr>]\<rparr>"

text \<open>A page that only mentions the four stale years.\<close>

definition staleRecord :: WebsiteData where
  "staleRecord = emptyRecord\<lparr>content := ''2020 2019 2018 2017''\<rparr>"

text \<open>The empty page with FAQPage and Article schema.\<close>

definition schemaRecord :: WebsiteData where
  "schemaRecord = emptyRecord\<lparr>hasSchema := True, schemaTypes := [''FAQPage'', ''Article'']\<rparr>"

text \<open>
  Two pages whose twelve scores add up to 174 and to 342, where the exact percentage
  ends in a half. Neither text has a match of any pattern of the source.
\<close>

definition roundingRecord :: WebsiteData where
  "roundingRecord = emptyRecord\<lparr>content := ''why.certified''\<rparr>"

definition roundingRecord342 :: WebsiteData where
  "roundingRecord342 =
     \<lparr>title = ''Hello world page'', metaDescription = [], headings = [], images = [],
      links = [\<lparr>href = ''https://a.example'', ltext = ''a'', isInternal = False\<rparr>,
               \<lparr>href = ''https://b.example'', ltext = ''b'', isInternal = False\<rparr>,
               \<lparr>href = ''https://c.example'', ltext = ''c'', isInternal = False\<rparr>,
               \<lparr>href = ''https://d.example'', ltext = ''d'', isInternal = False\<rparr>],
      content = ''tl;dr'', hasSchema = True, schemaTypes = [''FAQPage'', ''Article''],
      loadTime = 500, wordCount = 4000\<rparr>"

text \<open>A stored report and an assessment with given scores.\<close>

definition reportOf :: "string \<Rightarrow> int \<Rightarrow> int \<Rightarrow> AuditReport" where
  "reportOf u seo ai =
     \<lparr>url = u, seoScore = seo, aiScore = ai, traditionalSeoResults = [], geoResults = [],
      contentSuggestions = generateContentSuggestions emptyRecord ai\<rparr>"

definition assessmentOf :: "int \<Rightarrow> FactorResult list \<Rightarrow> AiVisibilityAssessment" where
  "assessmentOf s fs =
     \<lparr>overallScore = s, summary = [], factors = fs,
      recommendations = generateAiVisibilityRecommendations fs s\<rparr>"

section \<open>Double rounding\<close>

lemma pow2_pos: "0 < pow2 k"
  by (simp add: pow2_def)

lemma pow2_powi: "pow2 k = 2 powi k"
  by (simp add: pow2_def power_int_def field_simps)

lemma pow2_add: "pow2 (a + b) = pow2 a * pow2 b"
  by (simp add: pow2_powi power_int_add)

lemma pow2_mono: "a \<le> b \<Longrightarrow> pow2 a \<le> pow2 b"
  by (simp add: pow2_powi power_int_increasing)

lemma roundHalfEven_nonneg: "0 \<le> x \<Longrightarrow> 0 \<le> roundHalfEven x"
  by (auto simp: roundHalfEven_def Let_def)

lemma roundHalfEven_le:
  assumes le: "x \<le> of_int k"
  shows "roundHalfEven x \<le> k"
proof (cases "\<lfloor>x\<rfloor> = k")
  case True
  then have "of_int k \<le> x" by (metis of_int_floor_le)
  with le have "x = of_int k" by simp
  then show ?thesis by (simp add: roundHalfEven_def)
next
  case False
  moreover from le have "\<lfloor>x\<rfloor> \<le> k" by (simp add: floor_le_iff)
  ultimately have "\<lfloor>x\<rfloor> + 1 \<le> k" by simp
  then show ?thesis by (auto simp: roundHalfEven_def Let_def)
qed

lemma toDouble_nonneg: "0 \<le> x \<Longrightarrow> 0 \<le> toDouble x"
  by (simp add: toDouble_def Let_def roundHalfEven_nonneg pow2_pos less_imp_le)

text \<open>The exponent found through the bit lengths is not above the binary exponent.\<close>

lemma exponentOf_le:
  assumes "0 < x"
  shows "pow2 (exponentOf x) \<le> x"
proof -
  obtain p q where pq: "quotient_of x = (p, q)" by (cases "quotient_of x")
  then have q: "0 < q" and x: "x = of_int p / of_int q"
    by (simp_all add: quotient_of_denom_pos quotient_of_div)
  from assms x q have p: "0 < p" by (simp add: zero_less_divide_iff)
  let ?k = "bitlen p - bitlen q"
  have bp: "2 ^ nat (bitlen p - 1) \<le> p" using bitlen_bounds[OF p] by simp
  have bq: "q < 2 ^ nat (bitlen q)" using bitlen_bounds[OF q] by simp
  have bp1: "1 \<le> bitlen p" using p bitlen_eq_zero_iff[of p] bitlen_nonneg[of p] by linarith
  have bq1: "1 \<le> bitlen q" using q bitlen_eq_zero_iff[of q] bitlen_nonneg[of q] by linarith
  have "pow2 (?k - 1) = pow2 (bitlen p - 1) / pow2 (bitlen q)"
    using pow2_add[of "?k - 1" "bitlen q"] pow2_pos[of "bitlen q"] by (simp add: field_simps)
  also have "pow2 (bitlen p - 1) = of_int (2 ^ nat (bitlen p - 1))"
    using bp1 by (simp add: pow2_def)
  also have "pow2 (bitlen q) = of_int (2 ^ nat (bitlen q))"
    using bq1 by (simp add: pow2_def)
  also have "rat_of_int (2 ^ nat (bitlen p - 1)) / of_int (2 ^ nat (bitlen q))
               \<le> of_int p / of_int q"
  proof -
    have a: "rat_of_int (2 ^ nat (bitlen p - 1)) \<le> of_int p"
      using bp by (simp only: of_int_le_iff)
    have b: "rat_of_int q \<le> of_int (2 ^ nat (bitlen q))"
      using bq by (simp only: of_int_le_iff)
    have c: "0 < rat_of_int q" using q by simp
    have d: "0 \<le> rat_of_int p" using p by simp
    show ?thesis using d a c b by (rule frac_le)
  qed
  finally have low: "pow2 (?k - 1) \<le> x" using x by simp
  show ?thesis
    using low pq by (simp add: exponentOf_def Let_def)
qed

text \<open>Rounding never crosses an integer below \<open>2 ^ 53\<close>: such an integer is a double.\<close>

lemma toDouble_le_pos:
  assumes "0 < x" and "x \<le> of_int N" and "N < 2 ^ 53"
  shows "toDouble x \<le> of_int N"
proof -
  let ?e = "exponentOf x"
  have "pow2 ?e \<le> x" using assms(1) by (rule exponentOf_le)
  also have "x \<le> of_int N" by fact
  also have "rat_of_int N < pow2 53" using assms(3) by (simp add: pow2_def)
  finally have "pow2 ?e < pow2 53" .
  then have e: "?e < 53" using pow2_mono[of 53 ?e] by (cases "?e < 53") auto
  define m where "m = nat (52 - ?e)"
  have ulp: "pow2 (?e - 52) = 1 / 2 ^ m"
    using e pow2_add[of "?e - 52" "52 - ?e"] by (simp add: m_def pow2_def field_simps)
  have "x / pow2 (?e - 52) = x * 2 ^ m" by (simp add: ulp)
  also have "\<dots> \<le> of_int N * 2 ^ m" using assms(2) by simp
  also have "\<dots> = of_int (N * 2 ^ m)" by simp
  finally have "roundHalfEven (x / pow2 (?e - 52)) \<le> N * 2 ^ m" by (rule roundHalfEven_le)
  then have "rat_of_int (roundHalfEven (x / pow2 (?e - 52))) \<le> of_int (N * 2 ^ m)"
    by (simp only: of_int_le_iff)
  then have "rat_of_int (roundHalfEven (x / pow2 (?e - 52))) * pow2 (?e - 52) \<le> of_int N"
    by (simp add: ulp field_simps)
  then show ?thesis using assms(1) by (simp add: toDouble_def Let_def)
qed

lemma toDouble_le:
  assumes "0 \<le> x" and "x \<le> of_int N" and "N < 2 ^ 53"
  shows "toDouble x \<le> of_int N"
proof (cases "x = 0")
  case True
  with assms(2) show ?thesis by (simp add: toDouble_def)
next
  case False
  with assms(1) have "0 < x" by simp
  then show ?thesis using assms(2,3) by (rule toDouble_le_pos)
qed

lemma jsRound_nonneg: "0 \<le> x \<Longrightarrow> 0 \<le> jsRound x"
  by (simp add: jsRound_def)

lemma jsRound_le: "x \<le> of_int k \<Longrightarrow> jsRound x \<le> k"
  by (simp add: jsRound_def floor_le_iff)

text \<open>The percentage of a total between 0 and 1200 is between 0 and 100.\<close>

lemma percentage_range:
  assumes "0 \<le> t" and "t \<le> 1200"
  shows "0 \<le> jsRound (toDouble (toDouble (of_int t / 1200) * 100)) \<and>
         jsRound (toDouble (toDouble (of_int t / 1200) * 100)) \<le> 100"
proof -
  let ?q = "toDouble (of_int t / 1200)"
  have x0: "0 \<le> rat_of_int t / 1200" using assms(1) by simp
  have x1: "rat_of_int t / 1200 \<le> of_int 1" using assms(2) by simp
  have q0: "0 \<le> ?q" using x0 by (rule toDouble_nonneg)
  have q1: "?q \<le> of_int 1" using x0 x1 by (rule toDouble_le) simp
  have y0: "0 \<le> ?q * 100" using q0 by simp
  have y1: "?q * 100 \<le> of_int 100" using q1 by simp
  have r0: "0 \<le> toDouble (?q * 100)" using y0 by (rule toDouble_nonneg)
  have r1: "toDouble (?q * 100) \<le> of_int 100" using y0 y1 by (rule toDouble_le) simp
  show ?thesis using r0 r1 by (simp add: jsRound_nonneg jsRound_le)
qed

text \<open>
  The rounding of the source is visible at a total of 174: the exact percentage is 14.5,
  the double product lies just below it, and \<open>Math.round\<close> gives 14.
\<close>

lemma percentage_174: "jsRound (toDouble (toDouble (of_int 174 / 1200) * 100)) = 14"
  by code_simp

text \<open>
  Each rounding moves a value by at most half a unit in the last place, a relative error
  of at most \<open>2 ^ - 53\<close>. A percentage that is not half-way between two integers is
  therefore rounded by the source as in exact arithmetic; the hundred totals
  \<open>12 * j + 6\<close> whose percentage is half-way are evaluated one by one.
\<close>

lemma roundHalfEven_err: "\<bar>of_int (roundHalfEven z) - z\<bar> \<le> 1 / 2"
proof -
  have a: "of_int \<lfloor>z\<rfloor> \<le> z" and b: "z < of_int \<lfloor>z\<rfloor> + 1"
    by linarith+
  show ?thesis
    using a b by (auto simp: roundHalfEven_def Let_def abs_le_iff)
qed

lemma toDouble_err:
  assumes "0 \<le> z"
  shows "\<bar>toDouble z - z\<bar> \<le> z / 2 ^ 53"
proof (cases "z = 0")
  case True
  then show ?thesis by (simp add: toDouble_def)
next
  case False
  with assms have pos: "0 < z" by simp
  let ?e = "exponentOf z"
  let ?u = "pow2 (?e - 52)"
  have u: "0 < ?u" by (rule pow2_pos)
  have e: "pow2 ?e \<le> z" using pos by (rule exponentOf_le)
  have ue: "?u = pow2 ?e / 2 ^ 52"
    using pow2_add[of ?e "- 52"] by (simp add: pow2_def)
  have td: "toDouble z = of_int (roundHalfEven (z / ?u)) * ?u"
    using pos by (simp add: toDouble_def Let_def)
  have "\<bar>toDouble z - z\<bar> = \<bar>of_int (roundHalfEven (z / ?u)) - z / ?u\<bar> * ?u"
  proof -
    have "toDouble z - z = (of_int (roundHalfEven (z / ?u)) - z / ?u) * ?u"
      using u by (simp add: td field_simps)
    then show ?thesis using u by (simp add: abs_mult)
  qed
  also have "\<dots> \<le> 1 / 2 * ?u"
    using roundHalfEven_err[of "z / ?u"] u by (intro mult_right_mono) simp_all
  also have "\<dots> = pow2 ?e / 2 ^ 53" by (simp add: ue)
  also have "\<dots> \<le> z / 2 ^ 53" using e by (simp add: divide_right_mono)
  finally show ?thesis .
qed

lemma percentage_error:
  assumes "0 \<le> t" and "t \<le> 1200"
  shows "\<bar>toDouble (toDouble (of_int t / 1200) * 100) - of_int t / 12\<bar> \<le> 1 / 24"
proof -
  define eps :: rat where "eps = 1 / 2 ^ 53"
  define x where "x = rat_of_int t / 1200"
  define q where "q = toDouble x"
  define y where "y = toDouble (q * 100)"
  have x0: "0 \<le> x" using assms(1) by (simp add: x_def)
  have x1: "x \<le> of_int 1" using assms(2) by (simp add: x_def)
  have q0: "0 \<le> q" unfolding q_def using x0 by (rule toDouble_nonneg)
  have q1: "q \<le> of_int 1" unfolding q_def using x0 x1 by (rule toDouble_le) simp
  have eps0: "0 \<le> eps" by (simp add: eps_def)
  have "\<bar>q - x\<bar> \<le> x / 2 ^ 53" unfolding q_def using x0 by (rule toDouble_err)
  then have eq: "\<bar>q - x\<bar> \<le> x * eps" by (simp add: eps_def)
  have y0: "0 \<le> q * 100" using q0 by simp
  have "\<bar>y - q * 100\<bar> \<le> q * 100 / 2 ^ 53" unfolding y_def using y0 by (rule toDouble_err)
  then have ey: "\<bar>y - q * 100\<bar> \<le> (q * 100) * eps" by (simp add: eps_def)
  have b1: "x * eps \<le> 1 * eps" using x1 eps0 by (intro mult_right_mono) simp_all
  have b2: "(q * 100) * eps \<le> 100 * eps" using q1 eps0 by (intro mult_right_mono) simp_all
  have small: "200 * eps \<le> 1 / 24" by (simp add: eps_def)
  have "\<bar>y - x * 100\<bar> \<le> 1 / 24" using eq ey b1 b2 small by linarith
  moreover have "rat_of_int t / 12 = x * 100" by (simp add: x_def)
  ultimately show ?thesis by (simp only: y_def q_def x_def)
qed

lemma percentage_off_half:
  assumes "0 \<le> t" and "t \<le> 1200" and "t mod 12 \<noteq> 6"
  shows "percentageCheck t"
proof -
  define k where "k = (t + 6) div 12"
  define m where "m = (t + 6) mod 12"
  have tm: "t + 6 = 12 * k + m" unfolding k_def m_def by simp
  have m: "1 \<le> m" "m \<le> 11" using assms(3) unfolding m_def by presburger+
  have "rat_of_int (t + 6) = of_int (12 * k + m)" using tm by simp
  then have x: "rat_of_int t / 12 + 1 / 2 = of_int k + of_int m / 12"
    by (simp add: field_simps)
  have ml: "1 / 12 \<le> rat_of_int m / 12" using m(1) by simp
  have mu: "rat_of_int m / 12 \<le> 11 / 12" using m(2) by simp
  define y where "y = toDouble (toDouble (of_int t / 1200) * 100)"
  have err: "\<bar>y - of_int t / 12\<bar> \<le> 1 / 24"
    unfolding y_def using assms(1,2) by (rule percentage_error)
  have yl: "of_int k \<le> y + 1 / 2" using err x ml by linarith
  have yu: "y + 1 / 2 < of_int k + 1" using err x mu by linarith
  have d: "jsRound y = k" unfolding jsRound_def using yl yu by (rule floor_unique)
  have e100: "rat_of_int t / 1200 * 100 = of_int t / 12" by simp
  have xl: "of_int k \<le> rat_of_int t / 1200 * 100 + 1 / 2" unfolding e100 using x ml by linarith
  have xu: "rat_of_int t / 1200 * 100 + 1 / 2 < of_int k + 1"
    unfolding e100 using x mu by linarith
  have ex: "jsRound (rat_of_int t / 1200 * 100) = k"
    unfolding jsRound_def using xl xu by (rule floor_unique)
  have notin: "t \<notin> {174, 342, 678, 690}" using assms(3) by auto
  show ?thesis unfolding percentageCheck_def y_def[symmetric] d ex using notin by simp
qed

lemma percentage_half_0: "list_all (\<lambda>j. percentageCheck (12 * j + 6)) [0..9]"
  by code_simp

lemma percentage_half_1: "list_all (\<lambda>j. percentageCheck (12 * j + 6)) [10..19]"
  by code_simp

lemma percentage_half_2: "list_all (\<lambda>j. percentageCheck (12 * j + 6)) [20..29]"
  by code_simp

lemma percentage_half_3: "list_all (\<lambda>j. percentageCheck (12 * j + 6)) [30..39]"
  by code_simp

lemma percentage_half_4: "list_all (\<lambda>j. percentageCheck (12 * j + 6)) [40..49]"
  by code_simp

lemma percentage_half_5: "list_all (\<lambda>j. percentageCheck (12 * j + 6)) [50..59]"
  by code_simp

lemma percentage_half_6: "list_all (\<lambda>j. percentageCheck (12 * j + 6)) [60..69]"
  by code_simp

lemma percentage_half_7: "list_all (\<lambda>j. percentageCheck (12 * j + 6)) [70..79]"
  by code_simp

lemma percentage_half_8: "list_all (\<lambda>j. percentageCheck (12 * j + 6)) [80..89]"
  by code_simp

lemma percentage_half_9: "list_all (\<lambda>j. percentageCheck (12 * j + 6)) [90..99]"
  by code_simp

lemma percentage_on_half:
  assumes "0 \<le> t" and "t \<le> 1200" and "t mod 12 = 6"
  shows "percentageCheck t"
proof -
  define j where "j = t div 12"
  have t: "t = 12 * j + 6" unfolding j_def using assms(3) by presburger
  have j: "0 \<le> j" "j \<le> 99" using assms(1,2) t by simp_all
  then have "j \<in> {0..9} \<or> j \<in> {10..19} \<or> j \<in> {20..29} \<or> j \<in> {30..39} \<or> j \<in> {40..49} \<or>
      j \<in> {50..59} \<or> j \<in> {60..69} \<or> j \<in> {70..79} \<or> j \<in> {80..89} \<or> j \<in> {90..99}"
    by (simp only: atLeastAtMost_iff) presburger
  then have "percentageCheck (12 * j + 6)"
    using percentage_half_0[unfolded list_all_iff set_upto]
      percentage_half_1[unfolded list_all_iff set_upto]
      percentage_half_2[unfolded list_all_iff set_upto]
      percentage_half_3[unfolded list_all_iff set_upto]
      percentage_half_4[unfolded list_all_iff set_upto]
      percentage_half_5[unfolded list_all_iff set_upto]
      percentage_half_6[unfolded list_all_iff set_upto]
      percentage_half_7[unfolded list_all_iff set_upto]
      percentage_half_8[unfolded list_all_iff set_upto]
      percentage_half_9[unfolded list_all_iff set_upto]
    by blast
  then show ?thesis by (simp only: t[symmetric])
qed

lemma percentage_all: "0 \<le> t \<Longrightarrow> t \<le> 1200 \<Longrightarrow> percentageCheck t"
  by (cases "t mod 12 = 6") (simp_all add: percentage_on_half percentage_off_half)

section \<open>Ranges of the twelve assessors\<close>

lemma clamp_bounds:
  "0 \<le> lo \<Longrightarrow> lo \<le> 100 \<Longrightarrow> 0 \<le> max lo (min 100 x) \<and> max lo (min 100 x) \<le> (100::int)"
  by simp

lemma min100_bounds: "0 \<le> x \<Longrightarrow> 0 \<le> min 100 x \<and> min 100 x \<le> (100::int)"
  by simp

lemma if_nonneg: "0 \<le> a \<Longrightarrow> 0 \<le> b \<Longrightarrow> (0::int) \<le> (if c then a else b)"
  by simp

lemma min_nonneg: "0 \<le> a \<Longrightarrow> 0 \<le> b \<Longrightarrow> (0::int) \<le> min a b"
  by simp

lemmas nonneg_intros =
  if_nonneg min_nonneg jsRound_nonneg toDouble_nonneg add_nonneg_nonneg mult_nonneg_nonneg
  divide_nonneg_nonneg

lemma assessCrawlability_range: "0 \<le> assessCrawlability d \<and> assessCrawlability d \<le> 100"
  unfolding assessCrawlability_def Let_def by (rule clamp_bounds) simp_all

lemma assessHtmlStructure_range: "0 \<le> assessHtmlStructure d \<and> assessHtmlStructure d \<le> 100"
  unfolding assessHtmlStructure_def Let_def
  by (rule min100_bounds) (intro nonneg_intros; simp)

lemma assessContentClarity_range:
  "0 \<le> assessContentClarity d \<and> assessContentClarity d \<le> 100"
  unfolding assessContentClarity_def Let_def
  by (rule min100_bounds) (intro nonneg_intros; simp)

lemma assessScanability_range:
  "0 \<le> assessScanability rx d \<and> assessScanability rx d \<le> 100"
  unfolding assessScanability_def Let_def foldl_Cons foldl_Nil
  by (rule min100_bounds) (intro nonneg_intros; simp)

lemma assessSummarySections_range:
  "0 \<le> assessSummarySections d \<and> assessSummarySections d \<le> 100"
  unfolding assessSummarySections_def Let_def
  by (rule min100_bounds) (intro nonneg_intros; simp)

lemma assessQaFormat_range: "0 \<le> assessQaFormat d \<and> assessQaFormat d \<le> 100"
  unfolding assessQaFormat_def Let_def
  by (rule min100_bounds) (intro nonneg_intros; simp)

lemma assessSchemaMarkup_range: "0 \<le> assessSchemaMarkup d \<and> assessSchemaMarkup d \<le> 100"
  unfolding assessSchemaMarkup_def Let_def
  by (rule min100_bounds) (intro nonneg_intros; simp)

lemma assessTrustedEntities_range:
  "0 \<le> assessTrustedEntities d \<and> assessTrustedEntities d \<le> 100"
  unfolding assessTrustedEntities_def Let_def
  by (rule min100_bounds) (intro nonneg_intros; simp)

lemma assessDataFormats_range:
  "0 \<le> assessDataFormats rx d \<and> assessDataFormats rx d \<le> 100"
  unfolding assessDataFormats_def Let_def
  by (rule min100_bounds) (intro nonneg_intros; simp)

lemma assessReadability_range: "0 \<le> assessReadability d \<and> assessReadability d \<le> 100"
  unfolding assessReadability_def Let_def by (rule clamp_bounds) simp_all

lemma assessFreshness_range:
  "0 \<le> assessFreshness currentYear d \<and> assessFreshness currentYear d \<le> 100"
  unfolding assessFreshness_def Let_def by (rule clamp_bounds) simp_all

lemma assessCredibility_range: "0 \<le> assessCredibility d \<and> assessCredibility d \<le> 100"
  unfolding assessCredibility_def Let_def by (rule clamp_bounds) simp_all

section \<open>The two rule-based analyzers\<close>

lemma fst_push: "fst (push r pts st) = fst st @ [r]"
  by (simp add: push_def)

lemma snd_push: "snd (push r pts st) = snd st + pts"
  by (simp add: push_def)

lemma length_titleCheck: "length (fst (titleCheck d st)) = Suc (length (fst st))"
  by (simp add: titleCheck_def fst_push)

lemma length_metaCheck: "length (fst (metaCheck d st)) = Suc (length (fst st))"
  by (simp add: metaCheck_def fst_push)

lemma length_h1Check: "length (fst (h1Check d st)) = Suc (length (fst st))"
  by (simp add: h1Check_def fst_push)

lemma imagesWithoutAlt_empty: "images d = [] \<Longrightarrow> imagesWithoutAlt d = 0"
  by (simp add: imagesWithoutAlt_def)

lemma length_imageCheck:
  "length (fst (imageCheck d st)) =
     (if images d = [] then length (fst st) else Suc (length (fst st)))"
  by (simp add: imageCheck_def imagesWithoutAlt_empty fst_push)

lemma length_schemaCheck: "length (fst (schemaCheck d st)) = Suc (length (fst st))"
  by (simp add: schemaCheck_def fst_push)

lemma length_loadTimeCheck: "length (fst (loadTimeCheck d st)) = Suc (length (fst st))"
  by (simp add: loadTimeCheck_def fst_push)

lemma titleCheck_nonneg: "0 \<le> snd st \<Longrightarrow> 0 \<le> snd (titleCheck d st)"
  by (simp add: titleCheck_def snd_push)

lemma metaCheck_nonneg: "0 \<le> snd st \<Longrightarrow> 0 \<le> snd (metaCheck d st)"
  by (simp add: metaCheck_def snd_push)

lemma h1Check_nonneg: "0 \<le> snd st \<Longrightarrow> 0 \<le> snd (h1Check d st)"
  by (simp add: h1Check_def snd_push)

lemma imageCheck_nonneg: "0 \<le> snd st \<Longrightarrow> 0 \<le> snd (imageCheck d st)"
  by (simp add: imageCheck_def snd_push)

lemma schemaCheck_nonneg: "0 \<le> snd st \<Longrightarrow> 0 \<le> snd (schemaCheck d st)"
  by (simp add: schemaCheck_def snd_push)

lemma loadTimeCheck_nonneg: "0 \<le> snd st \<Longrightarrow> 0 \<le> snd (loadTimeCheck d st)"
  by (simp add: loadTimeCheck_def snd_push)

lemma analyzeTraditionalSeo_range:
  "0 \<le> snd (analyzeTraditionalSeo d) \<and> snd (analyzeTraditionalSeo d) \<le> 100"
  by (simp add: analyzeTraditionalSeo_def Let_def loadTimeCheck_nonneg schemaCheck_nonneg
      imageCheck_nonneg h1Check_nonneg metaCheck_nonneg titleCheck_nonneg)

lemma h2Check_nonneg: "0 \<le> snd st \<Longrightarrow> 0 \<le> snd (h2Check d st)"
  by (simp add: h2Check_def Let_def snd_push)

lemma tldrCheck_nonneg: "0 \<le> snd st \<Longrightarrow> 0 \<le> snd (tldrCheck d st)"
  by (simp add: tldrCheck_def Let_def snd_push)

lemma qaCheck_nonneg: "0 \<le> snd st \<Longrightarrow> 0 \<le> snd (qaCheck d st)"
  by (simp add: qaCheck_def Let_def snd_push)

lemma geoSchemaCheck_nonneg: "0 \<le> snd st \<Longrightarrow> 0 \<le> snd (geoSchemaCheck d st)"
  by (simp add: geoSchemaCheck_def snd_push)

lemma entityCheck_nonneg: "0 \<le> snd st \<Longrightarrow> 0 \<le> snd (entityCheck rx d st)"
  by (simp add: entityCheck_def Let_def snd_push)

lemma analyzeGeo_range: "0 \<le> snd (analyzeGeo rx d) \<and> snd (analyzeGeo rx d) \<le> 100"
  by (simp add: analyzeGeo_def Let_def entityCheck_nonneg geoSchemaCheck_nonneg qaCheck_nonneg
      tldrCheck_nonneg h2Check_nonneg)

section \<open>The visibility assessment\<close>

lemma analyze_factors:
  "factors (analyzeAiPlatformVisibility rx currentYear d) =
     [factorEntry ''Public Crawlability'' (assessCrawlability d)
        ''Page accessibility for AI crawlers without login walls or blocking'',
      factorEntry ''HTML Structure'' (assessHtmlStructure d)
        ''Clean semantic HTML with proper heading hierarchy'',
      factorEntry ''Content Clarity'' (assessContentClarity d)
        ''Clear introduction, topic definition, and direct question answers'',
      factorEntry ''Content Scannability'' (assessScanability rx d)
        ''Short paragraphs and easy-to-summarize content structure'',
      factorEntry ''TL;DR & Summary'' (assessSummarySections d)
        ''Quick summary sections at top or bottom of content'',
      factorEntry ''Q&A Format'' (assessQaFormat d)
        ''Structured question-answer blocks that AI can easily extract'',
      factorEntry ''Schema Markup'' (assessSchemaMarkup d)
        ''FAQPage, HowTo, Article, and other relevant structured data'',
      factorEntry ''Trusted Entities'' (assessTrustedEntities d)
        ''References to organizations, authority sources, and credible links'',
      factorEntry ''Data Extraction'' (assessDataFormats rx d)
        ''Bullet lists, tables, statistics, and structured information'',
      factorEntry ''Readability Level'' (assessReadability d)
        ''8th-grade reading level, minimal jargon and marketing fluff'',
      factorEntry ''Content Freshness'' (assessFreshness currentYear d)
        ''Updated dates, current year references, and freshness indicators'',
      factorEntry ''Credibility Markers'' (assessCredibility d)
        ''Author information, contact details, and about us content'']"
  unfolding analyzeAiPlatformVisibility_def Let_def
  by (simp only: AiVisibilityAssessment.select_convs pushFactor_def fst_conv snd_conv
      append_Nil append_Cons append_assoc)

lemma analyze_overall:
  "overallScore (analyzeAiPlatformVisibility rx currentYear d) =
     jsRound (toDouble (toDouble (of_int (totalOf rx currentYear d) / 1200) * 100))"
  unfolding analyzeAiPlatformVisibility_def Let_def totalOf_def
  by (simp only: AiVisibilityAssessment.select_convs pushFactor_def fst_conv snd_conv
      add_0)

lemma totalOf_range: "0 \<le> totalOf rx currentYear d \<and> totalOf rx currentYear d \<le> 1200"
  using assessCrawlability_range[of d] assessHtmlStructure_range[of d]
    assessContentClarity_range[of d] assessScanability_range[of rx d]
    assessSummarySections_range[of d] assessQaFormat_range[of d]
    assessSchemaMarkup_range[of d] assessTrustedEntities_range[of d]
    assessDataFormats_range[of rx d] assessReadability_range[of d]
    assessFreshness_range[of currentYear d] assessCredibility_range[of d]
  unfolding totalOf_def by linarith

lemma factorEntry_status:
  "(status (factorEntry n s descr) = Pass \<longleftrightarrow> 80 \<le> s) \<and>
   (status (factorEntry n s descr) = WarningStatus \<longleftrightarrow> 50 \<le> s \<and> s < 80) \<and>
   (status (factorEntry n s descr) = Fail \<longleftrightarrow> s < 50)"
  by (simp add: factorEntry_def)

lemma score_factorEntry: "score (factorEntry n s descr) = s"
  by (simp add: factorEntry_def)

lemma factor_factorEntry: "factor (factorEntry n s descr) = n"
  by (simp add: factorEntry_def)

section \<open>Claims about the visibility assessment\<close>

text \<open>
  C1, as stated, fails on the overall score: for the page with the content
  \<open>why.certified\<close> the twelve scores add up to 174, the percentage rounded in exact
  arithmetic is 15, and the overall score of the source is 14.
\<close>

theorem analyzeAiPlatformVisibility_overall_counterexample:
  "sum_list (map score (factors (analyzeAiPlatformVisibility noMatch 2025 roundingRecord))) = 174 \<and>
   jsRound (of_int 174 / 1200 * 100) = 15 \<and>
   overallScore (analyzeAiPlatformVisibility noMatch 2025 roundingRecord) = 14 \<and>
   overallScore (analyzeAiPlatformVisibility noMatch 2025 roundingRecord) \<noteq>
     jsRound (of_int (sum_list (map score
        (factors (analyzeAiPlatformVisibility noMatch 2025 roundingRecord)))) / 1200 * 100)"
proof -
  have ev: "[assessCrawlability roundingRecord, assessHtmlStructure roundingRecord,
       assessContentClarity roundingRecord, assessScanability noMatch roundingRecord,
       assessSummarySections roundingRecord, assessQaFormat roundingRecord,
       assessSchemaMarkup roundingRecord, assessTrustedEntities roundingRecord,
       assessDataFormats noMatch roundingRecord, assessReadability roundingRecord,
       assessFreshness 2025 roundingRecord, assessCredibility roundingRecord] =
      [70, 0, 23, 5, 0, 0, 0, 5, 5, 35, 10, 21]"
    by code_simp
  have tot: "totalOf noMatch 2025 roundingRecord = 174"
    unfolding totalOf_def using ev by simp
  have sum: "sum_list (map score
      (factors (analyzeAiPlatformVisibility noMatch 2025 roundingRecord))) = 174"
    using ev by (simp add: analyze_factors score_factorEntry)
  have exact: "jsRound (of_int 174 / 1200 * 100) = 15"
    by code_simp
  have ov: "overallScore (analyzeAiPlatformVisibility noMatch 2025 roundingRecord) = 14"
    unfolding analyze_overall tot by (rule percentage_174)
  show ?thesis
    unfolding sum ov exact by simp
qed

text \<open>
  C1, amended. For every record, \<open>analyzeAiPlatformVisibility\<close> returns exactly twelve
  factors, named in the order of the catalogue and scored by the twelve assessors in that
  order. Its overall score is \<open>Math.round(sum / 1200 * 100)\<close> of the sum of the twelve
  factor scores with the quotient and the product rounded to doubles; that is the
  percentage rounded in exact arithmetic, except when the sum is 174, 342, 678 or 690,
  where the overall score is one lower.
\<close>

theorem analyzeAiPlatformVisibility_factors_and_overall:
  "let a = analyzeAiPlatformVisibility rx currentYear d
   in length (factors a) = 12 \<and>
      map factor (factors a) =
        [''Public Crawlability'', ''HTML Structure'', ''Content Clarity'',
         ''Content Scannability'', ''TL;DR & Summary'', ''Q&A Format'', ''Schema Markup'',
         ''Trusted Entities'', ''Data Extraction'', ''Readability Level'',
         ''Content Freshness'', ''Credibility Markers''] \<and>
      map score (factors a) =
        [assessCrawlability d, assessHtmlStructure d, assessContentClarity d,
         assessScanability rx d, assessSummarySections d, assessQaFormat d,
         assessSchemaMarkup d, assessTrustedEntities d, assessDataFormats rx d,
         assessReadability d, assessFreshness currentYear d, assessCredibility d] \<and>
      overallScore a =
        jsRound (toDouble (toDouble (of_int (sum_list (map score (factors a))) / 1200) * 100)) \<and>
      overallScore a =
        jsRound (of_int (sum_list (map score (factors a))) / 1200 * 100)
          - (if sum_list (map score (factors a)) \<in> {174, 342, 678, 690} then 1 else 0)"
proof -
  have names: "map factor (factors (analyzeAiPlatformVisibility rx currentYear d)) =
      [''Public Crawlability'', ''HTML Structure'', ''Content Clarity'',
       ''Content Scannability'', ''TL;DR & Summary'', ''Q&A Format'', ''Schema Markup'',
       ''Trusted Entities'', ''Data Extraction'', ''Readability Level'',
       ''Content Freshness'', ''Credibility Markers'']"
    by (simp add: analyze_factors factor_factorEntry)
  have scores: "map score (factors (analyzeAiPlatformVisibility rx currentYear d)) =
      [assessCrawlability d, assessHtmlStructure d, assessContentClarity d,
       assessScanability rx d, assessSummarySections d, assessQaFormat d,
       assessSchemaMarkup d, assessTrustedEntities d, assessDataFormats rx d,
       assessReadability d, assessFreshness currentYear d, assessCredibility d]"
    by (simp add: analyze_factors score_factorEntry)
  have len: "length (factors (analyzeAiPlatformVisibility rx currentYear d)) = 12"
    by (simp add: analyze_factors)
  have sum: "sum_list (map score (factors (analyzeAiPlatformVisibility rx currentYear d))) =
      totalOf rx currentYear d"
    unfolding scores totalOf_def by simp
  have "percentageCheck (totalOf rx currentYear d)"
    using totalOf_range[of rx currentYear d] by (simp add: percentage_all)
  then have exact: "overallScore (analyzeAiPlatformVisibility rx currentYear d) =
      jsRound (of_int (totalOf rx currentYear d) / 1200 * 100)
        - (if totalOf rx currentYear d \<in> {174, 342, 678, 690} then 1 else 0)"
    unfolding percentageCheck_def analyze_overall .
  show ?thesis
    unfolding Let_def sum
    by (intro conjI) (rule len names scores analyze_overall exact)+
qed

text \<open>
  A page with schema, a title and four external links whose scores add up to 342: the
  exact percentage is 28.5, rounded 29, and the overall score is 28.
\<close>

theorem analyzeAiPlatformVisibility_factors_and_overall_witness:
  "length (factors (analyzeAiPlatformVisibility noMatch 2025 roundingRecord342)) = 12 \<and>
   map score (factors (analyzeAiPlatformVisibility noMatch 2025 roundingRecord342)) =
     [85, 20, 10, 5, 40, 0, 85, 17, 5, 50, 10, 15] \<and>
   sum_list (map score (factors (analyzeAiPlatformVisibility noMatch 2025 roundingRecord342)))
     = 342 \<and>
   jsRound (of_int 342 / 1200 * 100) = 29 \<and>
   overallScore (analyzeAiPlatformVisibility noMatch 2025 roundingRecord342) = 28"
proof -
  let ?a = "analyzeAiPlatformVisibility noMatch 2025 roundingRecord342"
  note t = analyzeAiPlatformVisibility_factors_and_overall[of noMatch 2025 roundingRecord342,
      unfolded Let_def]
  have ev: "[assessCrawlability roundingRecord342, assessHtmlStructure roundingRecord342,
       assessContentClarity roundingRecord342, assessScanability noMatch roundingRecord342,
       assessSummarySections roundingRecord342, assessQaFormat roundingRecord342,
       assessSchemaMarkup roundingRecord342, assessTrustedEntities roundingRecord342,
       assessDataFormats noMatch roundingRecord342, assessReadability roundingRecord342,
       assessFreshness 2025 roundingRecord342, assessCredibility roundingRecord342] =
      [85, 20, 10, 5, 40, 0, 85, 17, 5, 50, 10, 15]"
    by code_simp
  have len: "length (factors ?a) = 12" using t by (rule conjunct1)
  have sc: "map score (factors ?a) = [85, 20, 10, 5, 40, 0, 85, 17, 5, 50, 10, 15]"
    using t[THEN conjunct2, THEN conjunct2, THEN conjunct1] unfolding ev .
  have sum: "sum_list (map score (factors ?a)) = 342" unfolding sc by simp
  have exact: "jsRound (of_int 342 / 1200 * 100) = 29" by code_simp
  have "overallScore ?a = jsRound (of_int 342 / 1200 * 100) - (if (342 :: int) \<in> {174, 342, 678, 690} then 1 else 0)"
    using t[THEN conjunct2, THEN conjunct2, THEN conjunct2, THEN conjunct2] unfolding sum .
  then have ov: "overallScore ?a = 28" unfolding exact by simp
  show ?thesis
    by (intro conjI) (rule len sc sum exact ov)+
qed

text \<open>
  C2. For every record, the empty one included, each of the twelve assessor scores, the
  traditional SEO score, the GEO score and the overall visibility score is between 0 and
  100.
\<close>

theorem all_scores_in_range:
  "(0 \<le> assessCrawlability d \<and> assessCrawlability d \<le> 100) \<and>
   (0 \<le> assessHtmlStructure d \<and> assessHtmlStructure d \<le> 100) \<and>
   (0 \<le> assessContentClarity d \<and> assessContentClarity d \<le> 100) \<and>
   (0 \<le> assessScanability rx d \<and> assessScanability rx d \<le> 100) \<and>
   (0 \<le> assessSummarySections d \<and> assessSummarySections d \<le> 100) \<and>
   (0 \<le> assessQaFormat d \<and> assessQaFormat d \<le> 100) \<and>
   (0 \<le> assessSchemaMarkup d \<and> assessSchemaMarkup d \<le> 100) \<and>
   (0 \<le> assessTrustedEntities d \<and> assessTrustedEntities d \<le> 100) \<and>
   (0 \<le> assessDataFormats rx d \<and> assessDataFormats rx d \<le> 100) \<and>
   (0 \<le> assessReadability d \<and> assessReadability d \<le> 100) \<and>
   (0 \<le> assessFreshness currentYear d \<and> assessFreshness currentYear d \<le> 100) \<and>
   (0 \<le> assessCredibility d \<and> assessCredibility d \<le> 100) \<and>
   (0 \<le> snd (analyzeTraditionalSeo d) \<and> snd (analyzeTraditionalSeo d) \<le> 100) \<and>
   (0 \<le> snd (analyzeGeo rx d) \<and> snd (analyzeGeo rx d) \<le> 100) \<and>
   (0 \<le> overallScore (analyzeAiPlatformVisibility rx currentYear d) \<and>
    overallScore (analyzeAiPlatformVisibility rx currentYear d) \<le> 100)"
proof -
  have t: "0 \<le> totalOf rx currentYear d" "totalOf rx currentYear d \<le> 1200"
    using totalOf_range[of rx currentYear d] by simp_all
  have overall: "0 \<le> overallScore (analyzeAiPlatformVisibility rx currentYear d) \<and>
      overallScore (analyzeAiPlatformVisibility rx currentYear d) \<le> 100"
    unfolding analyze_overall using t by (rule percentage_range)
  show ?thesis
    by (intro conjI assessCrawlability_range assessHtmlStructure_range
        assessContentClarity_range assessScanability_range assessSummarySections_range
        assessQaFormat_range assessSchemaMarkup_range assessTrustedEntities_range
        assessDataFormats_range assessReadability_range assessFreshness_range
        assessCredibility_range analyzeTraditionalSeo_range analyzeGeo_range overall)
qed

theorem all_scores_in_range_witness:
  "assessHtmlStructure emptyRecord = 0 \<and> assessSchemaMarkup emptyRecord = 0 \<and>
   0 \<le> assessContentClarity emptyRecord \<and> assessContentClarity emptyRecord \<le> 100 \<and>
   0 \<le> assessFreshness 2025 emptyRecord \<and> assessFreshness 2025 emptyRecord \<le> 100 \<and>
   snd (analyzeTraditionalSeo emptyRecord) = 15 \<and> snd (analyzeGeo noMatch emptyRecord) = 0 \<and>
   0 \<le> overallScore (analyzeAiPlatformVisibility noMatch 2025 emptyRecord) \<and>
   overallScore (analyzeAiPlatformVisibility noMatch 2025 emptyRecord) \<le> 100"
proof -
  have ev: "assessHtmlStructure emptyRecord = 0 \<and> assessSchemaMarkup emptyRecord = 0 \<and>
      snd (analyzeTraditionalSeo emptyRecord) = 15 \<and> snd (analyzeGeo noMatch emptyRecord) = 0"
    by code_simp
  show ?thesis
    using all_scores_in_range[of emptyRecord noMatch 2025] ev by simp
qed

text \<open>
  C3. For every record and every factor of its assessment, the status is \<open>pass\<close>
  exactly when the score is at least 80, \<open>warning\<close> exactly when it is at least 50 and
  below 80, and \<open>fail\<close> exactly when it is below 50.
\<close>

theorem factor_status_thresholds:
  assumes "f \<in> set (factors (analyzeAiPlatformVisibility rx currentYear d))"
  shows "(status f = Pass \<longleftrightarrow> 80 \<le> score f) \<and>
         (status f = WarningStatus \<longleftrightarrow> 50 \<le> score f \<and> score f < 80) \<and>
         (status f = Fail \<longleftrightarrow> score f < 50)"
proof -
  from assms obtain n s descr where f: "f = factorEntry n s descr"
    unfolding analyze_factors by auto
  show ?thesis
    unfolding f score_factorEntry by (rule factorEntry_status)
qed

theorem factor_status_thresholds_witness:
  "factorEntry ''Public Crawlability'' 70
     ''Page accessibility for AI crawlers without login walls or blocking''
     \<in> set (factors (analyzeAiPlatformVisibility noMatch 2025 emptyRecord)) \<and>
   status (factorEntry ''Public Crawlability'' 70
     ''Page accessibility for AI crawlers without login walls or blocking'') = WarningStatus \<and>
   score (factorEntry ''Public Crawlability'' 70
     ''Page accessibility for AI crawlers without login walls or blocking'') = 70"
proof -
  have ev: "assessCrawlability emptyRecord = 70" by code_simp
  have m: "factorEntry ''Public Crawlability'' 70
       ''Page accessibility for AI crawlers without login walls or blocking''
     \<in> set (factors (analyzeAiPlatformVisibility noMatch 2025 emptyRecord))"
    unfolding analyze_factors ev by simp
  show ?thesis
    using factor_status_thresholds[OF m] m by (simp add: score_factorEntry)
qed

section \<open>Claims about the comparison\<close>

lemma seoScoreDiff_compare:
  "seoScoreDiff (compareWebsites d1 r1 d2 r2 v1 v2) = seoScore r2 - seoScore r1"
  by (simp add: compareWebsites_def Let_def)

lemma aiScoreDiff_compare:
  "aiScoreDiff (compareWebsites d1 r1 d2 r2 v1 v2) = aiScore r2 - aiScore r1"
  by (simp add: compareWebsites_def Let_def)

lemma aiVisibilityDiff_compare:
  "aiVisibilityDiff (compareWebsites d1 r1 d2 r2 v1 v2) = overallScore v2 - overallScore v1"
  by (simp add: compareWebsites_def Let_def)

lemma betterPerformer_compare:
  "betterPerformer (compareWebsites d1 r1 d2 r2 v1 v2) =
     (if (seoScore r2 - seoScore r1) + (aiScore r2 - aiScore r1)
           + (overallScore v2 - overallScore v1) > 0
      then ''url2'' else ''url1'')"
  by (simp add: compareWebsites_def Let_def)

lemma keyDifferences_compare:
  "keyDifferences (compareWebsites d1 r1 d2 r2 v1 v2) =
     (if \<bar>seoScore r2 - seoScore r1\<bar> > 10
      then [titleDifference d1 d2 (seoScore r2 - seoScore r1), metaDifference d1 d2] else [])
     @ (if \<bar>overallScore v2 - overallScore v1\<bar> > 15
        then [summaryDifference v1 v2, schemaFactorDifference v1 v2] else [])
     @ (if \<bar>aiScore r2 - aiScore r1\<bar> > 10
        then [structureDifference d1 d2, schemaTypesDifference d1 d2] else [])"
  unfolding compareWebsites_def Let_def
  by (cases "\<bar>seoScore r2 - seoScore r1\<bar> > 10";
      cases "\<bar>overallScore v2 - overallScore v1\<bar> > 15";
      cases "\<bar>aiScore r2 - aiScore r1\<bar> > 10")
     (simp_all only: Differences.select_convs if_True if_False append_Nil append_Cons
        append_Nil2)

lemma category_entries:
  "category (titleDifference d1 d2 x) = Seo"
  "category (metaDifference d1 d2) = Seo"
  "category (summaryDifference v1 v2) = Visibility"
  "category (schemaFactorDifference v1 v2) = Visibility"
  "category (structureDifference d1 d2) = Ai"
  "category (schemaTypesDifference d1 d2) = Ai"
  by (simp_all add: titleDifference_def metaDifference_def summaryDifference_def
      schemaFactorDifference_def structureDifference_def schemaTypesDifference_def Let_def)

lemma aspect_entries:
  "aspect (titleDifference d1 d2 x) = ''Title Tag Optimization''"
  "aspect (metaDifference d1 d2) = ''Meta Description''"
  "aspect (summaryDifference v1 v2) = ''AI Platform Summary''"
  "aspect (schemaFactorDifference v1 v2) = ''Structured Data Implementation''"
  "aspect (structureDifference d1 d2) = ''Content Structure''"
  "aspect (schemaTypesDifference d1 d2) = ''Schema Markup''"
  by (simp_all add: titleDifference_def metaDifference_def summaryDifference_def
      schemaFactorDifference_def structureDifference_def schemaTypesDifference_def Let_def)

lemma values_visibility_entries:
  "url1Value (summaryDifference v1 v2) = factorValue (factors v1) ''TL;DR & Summary''"
  "url2Value (summaryDifference v1 v2) = factorValue (factors v2) ''TL;DR & Summary''"
  "url1Value (schemaFactorDifference v1 v2) = factorValue (factors v1) ''Schema Markup''"
  "url2Value (schemaFactorDifference v1 v2) = factorValue (factors v2) ''Schema Markup''"
  by (simp_all add: summaryDifference_def schemaFactorDifference_def)

lemma bex_three_groups:
  "(\<exists>k \<in> set ((if a then [x1, x2] else []) @ (if b then [y1, y2] else [])
             @ (if c then [z1, z2] else [])). P k) \<longleftrightarrow>
   (a \<and> (P x1 \<or> P x2)) \<or> (b \<and> (P y1 \<or> P y2)) \<or> (c \<and> (P z1 \<or> P z2))"
  by (cases a; cases b; cases c) auto

lemma score_text_not_placeholder: "xs @ ''/100'' \<noteq> ''Not assessed''"
proof
  assume "xs @ ''/100'' = ''Not assessed''"
  then have "last (xs @ ''/100'') = last ''Not assessed''" by (rule arg_cong)
  moreover have "last (xs @ ''/100'') = CHR ''0''" by simp
  moreover have "last ''Not assessed'' = CHR ''d''" by simp
  ultimately show False by simp
qed

lemma find_Some_set: "find P xs = Some x \<Longrightarrow> x \<in> set xs \<and> P x"
  by (induction xs) (auto split: if_splits)

lemma factorValue_not_assessed:
  "factorValue fs name = ''Not assessed'' \<longleftrightarrow> (\<forall>f \<in> set fs. factor f \<noteq> name)"
proof (cases "find (\<lambda>f. factor f = name) fs")
  case None
  then have a: "\<forall>f \<in> set fs. factor f \<noteq> name" by (simp add: find_None_iff)
  have "factorValue fs name = ''Not assessed''" unfolding factorValue_def None by simp
  with a show ?thesis by simp
next
  case (Some f)
  then have "f \<in> set fs \<and> factor f = name" by (rule find_Some_set)
  then have a: "\<not> (\<forall>f \<in> set fs. factor f \<noteq> name)" by blast
  have "factorValue fs name = showInt (score f) @ ''/100''"
    unfolding factorValue_def Some by simp
  then have "factorValue fs name \<noteq> ''Not assessed''"
    by (simp only: score_text_not_placeholder not_False_eq_True)
  with a show ?thesis by simp
qed

lemma factorValue_found:
  "find (\<lambda>f. factor f = name) fs = Some f \<Longrightarrow> factorValue fs name = showInt (score f) @ ''/100''"
  by (simp add: factorValue_def)

text \<open>
  C4. The three differences are the value of the second site minus the value of the
  first; the better performer is \<open>url2\<close> when their sum is positive and \<open>url1\<close>
  otherwise, a tie included; exchanging the two sites negates the three differences and,
  when the sum is not zero, exchanges the better performer.
\<close>

theorem compareWebsites_diffs_and_symmetry:
  "let c = compareWebsites d1 r1 d2 r2 v1 v2;
       c' = compareWebsites d2 r2 d1 r1 v2 v1;
       total = seoScoreDiff c + aiScoreDiff c + aiVisibilityDiff c
   in seoScoreDiff c = seoScore r2 - seoScore r1 \<and>
      aiScoreDiff c = aiScore r2 - aiScore r1 \<and>
      aiVisibilityDiff c = overallScore v2 - overallScore v1 \<and>
      betterPerformer c = (if total > 0 then ''url2'' else ''url1'') \<and>
      seoScoreDiff c' = - seoScoreDiff c \<and>
      aiScoreDiff c' = - aiScoreDiff c \<and>
      aiVisibilityDiff c' = - aiVisibilityDiff c \<and>
      (total > 0 \<longrightarrow> betterPerformer c = ''url2'' \<and> betterPerformer c' = ''url1'') \<and>
      (total < 0 \<longrightarrow> betterPerformer c = ''url1'' \<and> betterPerformer c' = ''url2'') \<and>
      (total = 0 \<longrightarrow> betterPerformer c = ''url1'' \<and> betterPerformer c' = ''url1'')"
  unfolding Let_def seoScoreDiff_compare aiScoreDiff_compare aiVisibilityDiff_compare
    betterPerformer_compare
  by auto

theorem compareWebsites_diffs_and_symmetry_witness:
  "let c = compareWebsites emptyRecord (reportOf ''a'' 15 0) schemaRecord (reportOf ''b'' 30 20)
             (assessmentOf 13 []) (assessmentOf 20 []);
       c' = compareWebsites schemaRecord (reportOf ''b'' 30 20) emptyRecord (reportOf ''a'' 15 0)
              (assessmentOf 20 []) (assessmentOf 13 [])
   in seoScoreDiff c = 15 \<and> aiScoreDiff c = 20 \<and> aiVisibilityDiff c = 7 \<and>
      betterPerformer c = ''url2'' \<and>
      seoScoreDiff c' = - 15 \<and> aiScoreDiff c' = - 20 \<and> aiVisibilityDiff c' = - 7 \<and>
      betterPerformer c' = ''url1''"
  using compareWebsites_diffs_and_symmetry[of emptyRecord "reportOf ''a'' 15 0" schemaRecord
      "reportOf ''b'' 30 20" "assessmentOf 13 []" "assessmentOf 20 []"]
  by (simp add: Let_def reportOf_def assessmentOf_def)

text \<open>
  C5. The key differences are, in this order: the title-length and meta-description
  entries exactly when the SEO difference exceeds 10 in absolute value, the two
  visibility entries (the values of the factors \<open>TL;DR & Summary\<close> and \<open>Schema Markup\<close>,
  looked up by name, \<open>Not assessed\<close> for a name that a factor list does not have) exactly
  when the visibility difference exceeds 15 in absolute value, and the H2-structure and
  schema-type-count entries exactly when the GEO difference exceeds 10 in absolute
  value. Every field of the six entries is stated.
\<close>

theorem compareWebsites_keyDifferences:
  "let c = compareWebsites d1 r1 d2 r2 v1 v2
   in keyDifferences c =
        (if \<bar>seoScoreDiff c\<bar> > 10
         then [titleDifference d1 d2 (seoScoreDiff c), metaDifference d1 d2] else [])
        @ (if \<bar>aiVisibilityDiff c\<bar> > 15
           then [summaryDifference v1 v2, schemaFactorDifference v1 v2] else [])
        @ (if \<bar>aiScoreDiff c\<bar> > 10
           then [structureDifference d1 d2, schemaTypesDifference d1 d2] else []) \<and>
      ((\<exists>k \<in> set (keyDifferences c). category k = Seo) \<longleftrightarrow> \<bar>seoScoreDiff c\<bar> > 10) \<and>
      ((\<exists>k \<in> set (keyDifferences c). category k = Visibility) \<longleftrightarrow> \<bar>aiVisibilityDiff c\<bar> > 15) \<and>
      ((\<exists>k \<in> set (keyDifferences c). category k = Ai) \<longleftrightarrow> \<bar>aiScoreDiff c\<bar> > 10) \<and>
      url1Value (summaryDifference v1 v2) = factorValue (factors v1) ''TL;DR & Summary'' \<and>
      url2Value (summaryDifference v1 v2) = factorValue (factors v2) ''TL;DR & Summary'' \<and>
      url1Value (schemaFactorDifference v1 v2) = factorValue (factors v1) ''Schema Markup'' \<and>
      url2Value (schemaFactorDifference v1 v2) = factorValue (factors v2) ''Schema Markup'' \<and>
      (factorValue fs name = ''Not assessed'' \<longleftrightarrow> (\<forall>f \<in> set fs. factor f \<noteq> name)) \<and>
      (\<forall>f. find (\<lambda>f. factor f = name) fs = Some f \<longrightarrow>
           factorValue fs name = showInt (score f) @ ''/100'') \<and>
      titleDifference d1 d2 (seoScoreDiff c) =
        \<lparr>category = Seo, aspect = ''Title Tag Optimization'',
         url1Value = showNat (length (title d1)) @ '' characters'',
         url2Value = showNat (length (title d2)) @ '' characters'',
         recommendation =
           (if seoScoreDiff c > 0 then ''URL2 has better title length (50-60 chars ideal)''
            else ''URL1 has better title length optimization'')\<rparr> \<and>
      metaDifference d1 d2 =
        \<lparr>category = Seo, aspect = ''Meta Description'',
         url1Value = (if metaDescription d1 \<noteq> []
                      then showNat (length (metaDescription d1)) @ '' chars''
                      else ''Missing''),
         url2Value = (if metaDescription d2 \<noteq> []
                      then showNat (length (metaDescription d2)) @ '' chars''
                      else ''Missing''),
         recommendation =
           ''Meta description should be 150-160 characters for best results''\<rparr> \<and>
      summaryDifference v1 v2 =
        \<lparr>category = Visibility, aspect = ''AI Platform Summary'',
         url1Value = factorValue (factors v1) ''TL;DR & Summary'',
         url2Value = factorValue (factors v2) ''TL;DR & Summary'',
         recommendation =
           ''Add TL;DR sections and clear summaries for better AI visibility''\<rparr> \<and>
      schemaFactorDifference v1 v2 =
        \<lparr>category = Visibility, aspect = ''Structured Data Implementation'',
         url1Value = factorValue (factors v1) ''Schema Markup'',
         url2Value = factorValue (factors v2) ''Schema Markup'',
         recommendation =
           ''Implement FAQPage and Article schema markup for AI platforms''\<rparr> \<and>
      structureDifference d1 d2 =
        \<lparr>category = Ai, aspect = ''Content Structure'',
         url1Value = (if list_ex (\<lambda>h. level h = 2) (headings d1)
                      then ''Has H2 structure'' else ''Poor heading structure''),
         url2Value = (if list_ex (\<lambda>h. level h = 2) (headings d2)
                      then ''Has H2 structure'' else ''Poor heading structure''),
         recommendation = ''Use H2/H3 headings for better AI content parsing''\<rparr> \<and>
      schemaTypesDifference d1 d2 =
        \<lparr>category = Ai, aspect = ''Schema Markup'',
         url1Value = (if hasSchema d1 then showNat (length (schemaTypes d1)) @ '' types''
                      else ''None''),
         url2Value = (if hasSchema d2 then showNat (length (schemaTypes d2)) @ '' types''
                      else ''None''),
         recommendation = ''Implement FAQ and Article schema for AI platforms''\<rparr>"
proof -
  let ?c = "compareWebsites d1 r1 d2 r2 v1 v2"
  have eq: "keyDifferences ?c =
        (if \<bar>seoScoreDiff ?c\<bar> > 10
         then [titleDifference d1 d2 (seoScoreDiff ?c), metaDifference d1 d2] else [])
        @ (if \<bar>aiVisibilityDiff ?c\<bar> > 15
           then [summaryDifference v1 v2, schemaFactorDifference v1 v2] else [])
        @ (if \<bar>aiScoreDiff ?c\<bar> > 10
           then [structureDifference d1 d2, schemaTypesDifference d1 d2] else [])"
    unfolding seoScoreDiff_compare aiScoreDiff_compare aiVisibilityDiff_compare
    by (rule keyDifferences_compare)
  have seo: "(\<exists>k \<in> set (keyDifferences ?c). category k = Seo) \<longleftrightarrow> \<bar>seoScoreDiff ?c\<bar> > 10"
    unfolding eq bex_three_groups by (simp add: category_entries)
  have vis: "(\<exists>k \<in> set (keyDifferences ?c). category k = Visibility)
               \<longleftrightarrow> \<bar>aiVisibilityDiff ?c\<bar> > 15"
    unfolding eq bex_three_groups by (simp add: category_entries)
  have ai: "(\<exists>k \<in> set (keyDifferences ?c). category k = Ai) \<longleftrightarrow> \<bar>aiScoreDiff ?c\<bar> > 10"
    unfolding eq bex_three_groups by (simp add: category_entries)
  have fnd: "\<forall>f. find (\<lambda>f. factor f = name) fs = Some f \<longrightarrow>
      factorValue fs name = showInt (score f) @ ''/100''"
    by (simp add: factorValue_found)
  show ?thesis
    unfolding Let_def
    by (intro conjI)
       (rule eq seo vis ai values_visibility_entries factorValue_not_assessed fnd
          titleDifference_def metaDifference_def summaryDifference_def
          schemaFactorDifference_def structureDifference_def[unfolded Let_def]
          schemaTypesDifference_def)+
qed

theorem compareWebsites_keyDifferences_witness:
  "let v1 = assessmentOf 13 [];
       v2 = assessmentOf 40 [factorEntry ''Schema Markup'' 85 ''structured data''];
       c = compareWebsites emptyRecord (reportOf ''a'' 15 0) schemaRecord (reportOf ''b'' 30 20)
             v1 v2
   in map aspect (keyDifferences c) =
        [''Title Tag Optimization'', ''Meta Description'', ''AI Platform Summary'',
         ''Structured Data Implementation'', ''Content Structure'', ''Schema Markup''] \<and>
      url1Value (schemaFactorDifference v1 v2) = ''Not assessed'' \<and>
      url2Value (schemaFactorDifference v1 v2) = ''85/100'' \<and>
      map (\<lambda>k. (url1Value k, url2Value k)) (keyDifferences c) =
        [(''0 characters'', ''0 characters''), (''Missing'', ''Missing''),
         (''Not assessed'', ''Not assessed''), (''Not assessed'', ''85/100''),
         (''Poor heading structure'', ''Poor heading structure''), (''None'', ''2 types'')]"
proof -
  let ?v1 = "assessmentOf 13 []"
  let ?v2 = "assessmentOf 40 [factorEntry ''Schema Markup'' 85 ''structured data'']"
  let ?c = "compareWebsites emptyRecord (reportOf ''a'' 15 0) schemaRecord (reportOf ''b'' 30 20)
              ?v1 ?v2"
  note t = compareWebsites_keyDifferences[of emptyRecord "reportOf ''a'' 15 0" schemaRecord
      "reportOf ''b'' 30 20" ?v1 ?v2 "[]" "''Schema Markup''", unfolded Let_def]
  have d: "seoScoreDiff ?c = 15" "aiVisibilityDiff ?c = 27" "aiScoreDiff ?c = 20"
    by (simp_all add: seoScoreDiff_compare aiVisibilityDiff_compare aiScoreDiff_compare
        reportOf_def assessmentOf_def)
  have k: "keyDifferences ?c =
      [titleDifference emptyRecord schemaRecord 15, metaDifference emptyRecord schemaRecord,
       summaryDifference ?v1 ?v2, schemaFactorDifference ?v1 ?v2,
       structureDifference emptyRecord schemaRecord,
       schemaTypesDifference emptyRecord schemaRecord]"
    using t[THEN conjunct1] unfolding d by simp
  have sh: "showInt 85 = ''85''" "showNat 0 = ''0''" "showNat 2 = ''2''" by code_simp+
  have sh2: "showNat (Suc (Suc 0)) = ''2''" using sh(3) by (simp only: numeral_2_eq_2)
  have fv: "url2Value (schemaFactorDifference ?v1 ?v2) = ''85/100''"
    by (simp add: values_visibility_entries assessmentOf_def factorValue_def factorEntry_def sh)
  have fn: "url1Value (schemaFactorDifference ?v1 ?v2) = ''Not assessed''"
    by (simp add: values_visibility_entries assessmentOf_def factorValue_def)
  have vals: "map (\<lambda>k. (url1Value k, url2Value k)) (keyDifferences ?c) =
        [(''0 characters'', ''0 characters''), (''Missing'', ''Missing''),
         (''Not assessed'', ''Not assessed''), (''Not assessed'', ''85/100''),
         (''Poor heading structure'', ''Poor heading structure''), (''None'', ''2 types'')]"
    unfolding k
    by (simp add: titleDifference_def metaDifference_def summaryDifference_def
        schemaFactorDifference_def structureDifference_def schemaTypesDifference_def Let_def
        emptyRecord_def schemaRecord_def assessmentOf_def factorValue_def factorEntry_def sh
        sh2)
  show ?thesis
    unfolding Let_def using fv fn vals by (simp add: k aspect_entries)
qed

section \<open>Claims about the recommendations\<close>







section \<open>Claims about the traditional SEO analysis\<close>

text \<open>
  C7. For the empty page with a load time of 500 ms the traditional SEO score is 15,
  and the results are three errors (title, meta description, H1) and one warning
  (schema), followed by the load-time entry, the only success.
\<close>

theorem analyzeTraditionalSeo_emptyRecord:
  "snd (analyzeTraditionalSeo emptyRecord) = 15 \<and>
   map (\<lambda>r. (rtitle r, rtype r)) (fst (analyzeTraditionalSeo emptyRecord)) =
     [(''Missing title tag'', Error), (''Missing meta description'', Error),
      (''Missing H1 tag'', Error), (''No schema markup found'', Warning),
      (''Good page load time'', Success)]"
  by (simp add: analyzeTraditionalSeo_def emptyRecord_def titleCheck_def metaCheck_def
      h1Check_def h1Count_def imageCheck_def imagesWithoutAlt_def schemaCheck_def
      loadTimeCheck_def push_def Let_def)

text \<open>
  C8, as stated, fails: the image check appends nothing for a page without images, and
  the results of the empty page have five entries.
\<close>

theorem analyzeTraditionalSeo_six_entries_counterexample:
  "length (fst (analyzeTraditionalSeo emptyRecord)) = 5 \<and>
   length (fst (analyzeTraditionalSeo emptyRecord)) \<noteq> 6 \<and>
   imageCheck emptyRecord ([], 0) = ([], 0)"
  by (simp add: analyzeTraditionalSeo_def emptyRecord_def titleCheck_def metaCheck_def
      h1Check_def h1Count_def imageCheck_def imagesWithoutAlt_def schemaCheck_def
      loadTimeCheck_def push_def Let_def)

text \<open>
  C8, amended. The title, meta-description, H1, schema and load-time checks each append
  exactly one entry for every record; the image check appends exactly one entry when the
  page has an image and none when it has no image; the results have six entries for a
  page with an image and five for a page without.
\<close>

theorem analyzeTraditionalSeo_entries:
  "length (fst (titleCheck d st)) = Suc (length (fst st)) \<and>
   length (fst (metaCheck d st)) = Suc (length (fst st)) \<and>
   length (fst (h1Check d st)) = Suc (length (fst st)) \<and>
   length (fst (imageCheck d st)) =
     (if images d = [] then length (fst st) else Suc (length (fst st))) \<and>
   length (fst (schemaCheck d st)) = Suc (length (fst st)) \<and>
   length (fst (loadTimeCheck d st)) = Suc (length (fst st)) \<and>
   length (fst (analyzeTraditionalSeo d)) = (if images d = [] then 5 else 6)"
proof -
  have total: "length (fst (analyzeTraditionalSeo d)) = (if images d = [] then 5 else 6)"
    by (simp add: analyzeTraditionalSeo_def Let_def length_loadTimeCheck length_schemaCheck
        length_imageCheck length_h1Check length_metaCheck length_titleCheck)
  show ?thesis
    by (intro conjI)
       (rule length_titleCheck length_metaCheck length_h1Check length_imageCheck
          length_schemaCheck length_loadTimeCheck total)+
qed

theorem analyzeTraditionalSeo_entries_witness:
  "images imageRecord \<noteq> [] \<and> length (fst (analyzeTraditionalSeo imageRecord)) = 6 \<and>
   images emptyRecord = [] \<and> length (fst (imageCheck emptyRecord ([], 0))) = 0"
  using analyzeTraditionalSeo_entries[of imageRecord "([], 0)"]
    analyzeTraditionalSeo_entries[of emptyRecord "([], 0)"]
  by (simp add: imageRecord_def emptyRecord_def)

section \<open>Claims about the content suggestions\<close>

text \<open>
  C9. The keyword list, the blog titles, the content structure, the FAQs and the platform
  visibility of the content suggestions are the same for any two records and any two
  scores; the improvements are the same for any two records with the same score, and
  they do vary with the score.
\<close>

theorem generateContentSuggestions_noninterference:
  "missingKeywords (generateContentSuggestions d1 s1) =
     missingKeywords (generateContentSuggestions d2 s2) \<and>
   blogTitles (generateContentSuggestions d1 s1) =
     blogTitles (generateContentSuggestions d2 s2) \<and>
   contentStructure (generateContentSuggestions d1 s1) =
     contentStructure (generateContentSuggestions d2 s2) \<and>
   faqs (generateContentSuggestions d1 s1) = faqs (generateContentSuggestions d2 s2) \<and>
   aiVisibility (generateContentSuggestions d1 s1) =
     aiVisibility (generateContentSuggestions d2 s2) \<and>
   aiImprovements (generateContentSuggestions d1 s1) =
     aiImprovements (generateContentSuggestions d2 s1) \<and>
   aiImprovements (generateContentSuggestions d1 0) \<noteq>
     aiImprovements (generateContentSuggestions d1 100)"
proof -
  have imp: "generateAiImprovements d1 s1 = generateAiImprovements d2 s1"
    by (simp add: generateAiImprovements_def)
  have "length (generateAiImprovements d1 0) = 6"
    by (simp add: generateAiImprovements_def Let_def)
  moreover have "length (generateAiImprovements d1 100) = 3"
    by (simp add: generateAiImprovements_def Let_def)
  ultimately have var: "generateAiImprovements d1 0 \<noteq> generateAiImprovements d1 100"
    by auto
  show ?thesis
    using imp var by (simp add: generateContentSuggestions_def Let_def)
qed

theorem generateContentSuggestions_noninterference_witness:
  "missingKeywords (generateContentSuggestions emptyRecord 10) =
     missingKeywords (generateContentSuggestions schemaRecord 90) \<and>
   faqs (generateContentSuggestions emptyRecord 10) =
     faqs (generateContentSuggestions schemaRecord 90) \<and>
   aiImprovements (generateContentSuggestions emptyRecord 10) =
     aiImprovements (generateContentSuggestions schemaRecord 10) \<and>
   map impPriority (aiImprovements (generateContentSuggestions emptyRecord 90)) = [8, 9, 10]"
proof -
  have "map impPriority (generateAiImprovements emptyRecord 90) = [8, 9, 10]"
    by (simp add: generateAiImprovements_def Let_def)
  then have p: "map impPriority (aiImprovements (generateContentSuggestions emptyRecord 90))
      = [8, 9, 10]"
    by (simp add: generateContentSuggestions_def Let_def)
  show ?thesis
    using generateContentSuggestions_noninterference[of emptyRecord 10 schemaRecord 90] p
    by simp
qed

section \<open>Claims about the freshness assessor\<close>

text \<open>
  C10. For every record and every current year the freshness score is at least 5: the
  penalty for the stale years, at most 20, is subtracted before the final clamp between
  5 and 100, so the score is never negative.
\<close>

theorem assessFreshness_at_least_5:
  "5 \<le> assessFreshness currentYear d"
  unfolding assessFreshness_def Let_def by (rule max.cobounded1)

text \<open>
  A page that only mentions the four stale years: the sum before the clamp is
  \<open>10 - 20\<close>, and the score is 5.
\<close>

theorem assessFreshness_at_least_5_witness:
  "5 \<le> assessFreshness 2025 staleRecord \<and> assessFreshness 2025 staleRecord = 5"
proof -
  have "assessFreshness 2025 staleRecord = 5" by code_simp
  then show ?thesis
    using assessFreshness_at_least_5[of 2025 staleRecord] by simp
qed

end
